theory Spec2Isabelle
  imports Main
begin

section \<open>JavaScript values\<close>

text \<open>
  A value that may be \<^verbatim>\<open>undefined\<close> or \<^verbatim>\<open>null\<close> is a \<open>string option\<close>.
  JavaScript treats \<^verbatim>\<open>undefined\<close>, \<^verbatim>\<open>null\<close> and the empty string as falsy;
  \<open>or_else a b\<close> is the expression \<^verbatim>\<open>a || b\<close> on strings.
\<close>

definition truthy :: "string option \<Rightarrow> bool" where
  "truthy v = (case v of None \<Rightarrow> False | Some s \<Rightarrow> s \<noteq> [])"

definition or_else :: "string option \<Rightarrow> string \<Rightarrow> string" where
  "or_else v d = (case v of None \<Rightarrow> d | Some s \<Rightarrow> if s = [] then d else s)"

text \<open>
  Numbers inside template literals are integers here (\<^verbatim>\<open>Date.now()\<close> is a count of
  milliseconds); \<open>show_int\<close> is their decimal rendering.
\<close>

definition digit_char :: "nat \<Rightarrow> char" where
  "digit_char d = ''0123456789'' ! d"

fun show_nat :: "nat \<Rightarrow> string" where
  "show_nat n = (if n < 10 then [digit_char n] else show_nat (n div 10) @ [digit_char (n mod 10)])"

declare show_nat.simps [simp del]

definition show_int :: "int \<Rightarrow> string" where
  "show_int i = (if i < 0 then CHR ''-'' # show_nat (nat (- i)) else show_nat (nat i))"

text \<open>Errors thrown by the collaborators and by the code itself.\<close>

datatype js_error =
    DbError          \<comment> \<open>the MongoDB driver rejected or was unreachable\<close>
  | FetchError       \<comment> \<open>\<^verbatim>\<open>fetch\<close> rejected\<close>
  | TypeError        \<comment> \<open>a property of \<^verbatim>\<open>undefined\<close> was read\<close>
  | NormalizeError   \<comment> \<open>\<^verbatim>\<open>Cannot normalize undefined ...\<close>\<close>

section \<open>sessionManager.js\<close>

text \<open>
  The object cached in \<^verbatim>\<open>global.sessionCache\<close> and returned by
  \<^verbatim>\<open>getOrCreateSession\<close>. Every object literal of the source has exactly the
  properties \<^verbatim>\<open>sessionId, conversationId, startedAt, lastActivity\<close> and, on some paths,
  \<^verbatim>\<open>isNewSession: true\<close> (absent reads as falsy). No literal sets
  \<^verbatim>\<open>previousConversationId\<close>, so reading it from such an object gives
  \<^verbatim>\<open>undefined\<close>: the field is \<open>None\<close> in every session the code builds.
  Timestamps are milliseconds since the epoch; an ISO string and its millisecond value
  denote the same instant.
\<close>

record session =
  sessionId :: string
  conversationId :: string
  startedAt :: int
  lastActivity :: int
  isNewSession :: bool
  previousConversationId :: "string option"

text \<open>A document of the \<^verbatim>\<open>globalSessions\<close> collection, with the fields the source writes.\<close>

record session_doc =
  d_frontendSessionId :: string
  d_sessionId :: string
  d_conversationId :: string
  d_startedAt :: int
  d_lastActivity :: int
  d_previousConversationId :: "string option"
  d_isTimeoutSession :: bool

text \<open>
  The process-wide session cache and the durable collection. The collection is a list in
  natural (insertion) order: \<^verbatim>\<open>findOne\<close> returns the first match, \<^verbatim>\<open>insertOne\<close>
  appends, \<^verbatim>\<open>updateOne\<close> changes the first match.
\<close>

record session_store =
  sessionCache :: "string \<rightharpoonup> session"
  globalSessions :: "session_doc list"

text \<open>
  What the outside world does during one call: the clock reading, the random suffix, and
  whether each storage operation resolves or rejects. One call reads the clock several
  times; the model takes these readings to be equal.
\<close>

record session_env =
  now :: int
  random_suffix :: string
  connect_ok :: bool
  findOne_ok :: bool
  insertOne_ok :: bool
  updateOne_ok :: bool

definition SESSION_TIMEOUT :: int where
  "SESSION_TIMEOUT = 15 * 60 * 1000"

definition findOne_session :: "string \<Rightarrow> session_doc list \<Rightarrow> session_doc option" where
  "findOne_session fsid docs = find (\<lambda>d. d_frontendSessionId d = fsid) docs"

fun updateOne_lastActivity :: "string \<Rightarrow> int \<Rightarrow> session_doc list \<Rightarrow> session_doc list" where
  "updateOne_lastActivity cid t [] = []"
| "updateOne_lastActivity cid t (d # ds) =
     (if d_conversationId d = cid then d\<lparr>d_lastActivity := t\<rparr> # ds
      else d # updateOne_lastActivity cid t ds)"

definition timeout_doc :: "string \<Rightarrow> string \<Rightarrow> int \<Rightarrow> string \<Rightarrow> session_doc" where
  "timeout_doc fsid cid t prev =
     \<lparr>d_frontendSessionId = fsid, d_sessionId = fsid, d_conversationId = cid,
      d_startedAt = t, d_lastActivity = t,
      d_previousConversationId = Some prev, d_isTimeoutSession = True\<rparr>"

definition new_doc :: "string \<Rightarrow> string \<Rightarrow> int \<Rightarrow> session_doc" where
  "new_doc fsid cid t =
     \<lparr>d_frontendSessionId = fsid, d_sessionId = fsid, d_conversationId = cid,
      d_startedAt = t, d_lastActivity = t,
      d_previousConversationId = None, d_isTimeoutSession = False\<rparr>"

text \<open>
  The \<^verbatim>\<open>try\<close> block of \<^verbatim>\<open>getOrCreateSession\<close> (lines 21 to 243). Each storage call sits
  in its own inner \<^verbatim>\<open>try/catch\<close>, written here as a test of the environment's flag with
  the \<^verbatim>\<open>catch\<close> branch as the alternative.
\<close>

definition getOrCreateSession_try ::
  "string option \<Rightarrow> session_env \<Rightarrow> session_store \<Rightarrow> js_error + (session \<times> session_store)" where
  "getOrCreateSession_try sid e w =
    (let frontendSessionId =
           or_else sid (''session_'' @ show_int (now e) @ ''_'' @ random_suffix e)
     in
     case sessionCache w frontendSessionId of
       Some cachedSession \<Rightarrow>
         if now e - lastActivity cachedSession > SESSION_TIMEOUT then
           (let newConversationId = frontendSessionId @ ''_'' @ show_int (now e);
                timeoutSession =
                  \<lparr>sessionId = frontendSessionId, conversationId = newConversationId,
                   startedAt = now e, lastActivity = now e, isNewSession = True,
                   previousConversationId = None\<rparr>;
                w1 = w\<lparr>sessionCache := (sessionCache w)(frontendSessionId \<mapsto> timeoutSession)\<rparr>;
                w2 = (if connect_ok e \<and> insertOne_ok e
                      then w1\<lparr>globalSessions := globalSessions w1 @
                             [timeout_doc frontendSessionId newConversationId (now e)
                                (conversationId cachedSession)]\<rparr>
                      else w1)
            in Inr (timeoutSession, w2))
         else
           (let cachedSession' = cachedSession\<lparr>lastActivity := now e\<rparr>;
                w1 = w\<lparr>sessionCache := (sessionCache w)(frontendSessionId \<mapsto> cachedSession')\<rparr>;
                w2 = (if connect_ok e \<and> updateOne_ok e
                      then w1\<lparr>globalSessions :=
                             updateOne_lastActivity (conversationId cachedSession') (now e)
                               (globalSessions w1)\<rparr>
                      else w1)
            in Inr (cachedSession', w2))
     | None \<Rightarrow>
         if \<not> connect_ok e then
           (let tempSession =
                  \<lparr>sessionId = frontendSessionId,
                   conversationId = frontendSessionId @ ''_'' @ show_int (now e),
                   startedAt = now e, lastActivity = now e, isNewSession = False,
                   previousConversationId = None\<rparr>
            in Inr (tempSession,
                    w\<lparr>sessionCache := (sessionCache w)(frontendSessionId \<mapsto> tempSession)\<rparr>))
         else
           (let existingSession =
                  (if findOne_ok e then findOne_session frontendSessionId (globalSessions w)
                   else None)
            in
            case (case existingSession of
                    None \<Rightarrow> None
                  | Some x \<Rightarrow> if d_conversationId x \<noteq> [] then Some x else None) of
              Some existing \<Rightarrow>
                if now e - d_lastActivity existing > SESSION_TIMEOUT then
                  (let newConversationId = frontendSessionId @ ''_'' @ show_int (now e);
                       newSession = timeout_doc frontendSessionId newConversationId (now e)
                                      (d_conversationId existing);
                       w1 = (if insertOne_ok e
                             then w\<lparr>globalSessions := globalSessions w @ [newSession]\<rparr>
                             else w);
                       sessionInfo =
                         \<lparr>sessionId = d_sessionId newSession,
                          conversationId = d_conversationId newSession,
                          startedAt = d_startedAt newSession, lastActivity = now e,
                          isNewSession = True,
                   previousConversationId = None\<rparr>
                   in Inr (sessionInfo,
                           w1\<lparr>sessionCache := (sessionCache w1)(frontendSessionId \<mapsto> sessionInfo)\<rparr>))
                else
                  (let w1 = (if updateOne_ok e
                             then w\<lparr>globalSessions :=
                                    updateOne_lastActivity (d_conversationId existing) (now e)
                                      (globalSessions w)\<rparr>
                             else w);
                       sessionInfo =
                         \<lparr>sessionId = d_sessionId existing,
                          conversationId = d_conversationId existing,
                          startedAt = d_startedAt existing, lastActivity = now e,
                          isNewSession = False,
                   previousConversationId = None\<rparr>
                   in Inr (sessionInfo,
                           w1\<lparr>sessionCache := (sessionCache w1)(frontendSessionId \<mapsto> sessionInfo)\<rparr>))
            | None \<Rightarrow>
                (let newConversationId = frontendSessionId @ ''_'' @ show_int (now e);
                     newSession = new_doc frontendSessionId newConversationId (now e);
                     w1 = (if insertOne_ok e
                           then w\<lparr>globalSessions := globalSessions w @ [newSession]\<rparr>
                           else w);
                     sessionInfo =
                       \<lparr>sessionId = d_sessionId newSession,
                        conversationId = d_conversationId newSession,
                        startedAt = d_startedAt newSession, lastActivity = now e,
                        isNewSession = True,
                   previousConversationId = None\<rparr>
                 in Inr (sessionInfo,
                         w1\<lparr>sessionCache := (sessionCache w1)(frontendSessionId \<mapsto> sessionInfo)\<rparr>))))"

text \<open>
  The outer \<^verbatim>\<open>catch\<close> (lines 244 to 262): any error escaping the block above is
  replaced by a fallback session, cached under the token (or an emergency key).
\<close>

definition fallbackSession :: "string option \<Rightarrow> session_env \<Rightarrow> session" where
  "fallbackSession sid e =
     \<lparr>sessionId = or_else sid (''emergency_'' @ show_int (now e)),
      conversationId = or_else sid ''unknown'' @ ''_'' @ show_int (now e),
      startedAt = now e, lastActivity = now e, isNewSession = False,
                   previousConversationId = None\<rparr>"

definition getOrCreateSession ::
  "string option \<Rightarrow> session_env \<Rightarrow> session_store \<Rightarrow> js_error + (session \<times> session_store)" where
  "getOrCreateSession sid e w =
     (case getOrCreateSession_try sid e w of
        Inr r \<Rightarrow> Inr r
      | Inl err \<Rightarrow>
          Inr (fallbackSession sid e,
               w\<lparr>sessionCache := (sessionCache w)
                    (or_else sid (''emergency_'' @ show_int (now e)) \<mapsto> fallbackSession sid e)\<rparr>))"


text \<open>
  The identifiers held by the cache and the collection are non-empty strings; every
  session and document the code writes is of this form.
\<close>

definition store_ok :: "session_store \<Rightarrow> bool" where
  "store_ok w =
     ((\<forall>k s. sessionCache w k = Some s \<longrightarrow> sessionId s \<noteq> [] \<and> conversationId s \<noteq> []) \<and>
      (\<forall>d \<in> set (globalSessions w). d_sessionId d \<noteq> []))"

text \<open>
  The scenario of the specification: token \<^verbatim>\<open>s1\<close> opened its conversation at time 0;
  \<open>env_at t up\<close> is a call at time \<open>t\<close> with the store reachable or not.
\<close>

definition rollover_store :: session_store where
  "rollover_store =
     \<lparr>sessionCache = [''s1'' \<mapsto>
        \<lparr>sessionId = ''s1'', conversationId = ''s1_0'', startedAt = 0, lastActivity = 0,
         isNewSession = True, previousConversationId = None\<rparr>],
      globalSessions = []\<rparr>"

definition env_at :: "int \<Rightarrow> bool \<Rightarrow> session_env" where
  "env_at t up =
     \<lparr>now = t, random_suffix = ''k3j9x0q1z'', connect_ok = up, findOne_ok = up,
      insertOne_ok = up, updateOne_ok = up\<rparr>"

section \<open>dataModels.js\<close>

text \<open>
  A raw message as a caller may supply it: every property is optional. A timestamp is an
  ISO string in the source and is read back with \<^verbatim>\<open>new Date(...).getTime()\<close>; it is
  its millisecond value here.
\<close>

record raw_message =
  rm_id :: "string option"
  rm_content :: "string option"
  rm_role :: "string option"
  rm_sender :: "string option"
  rm_type :: "string option"
  rm_defaultRole :: "string option"
  rm_timestamp :: "int option"
  rm_language :: "string option"
  rm_postgresqlId :: "string option"

text \<open>The object \<^verbatim>\<open>normalizeMessage\<close> returns.\<close>

record message =
  m_id :: string
  m_content :: string
  m_role :: string
  m_type :: string
  m_timestamp :: int
  m_language :: string
  m_postgresqlId :: "string option"

text \<open>
  The clock and \<^verbatim>\<open>Math.random\<close> during one normalization: \<open>n_random e k\<close> is the
  rendering of the \<open>k\<close>-th draw.
\<close>

record norm_env =
  n_now :: int
  n_random :: "nat \<Rightarrow> string"

definition normalizeMessage :: "norm_env \<Rightarrow> nat \<Rightarrow> raw_message option \<Rightarrow> js_error + message" where
  "normalizeMessage e k message =
     (case message of
        None \<Rightarrow> Inl NormalizeError
      | Some msg \<Rightarrow>
          (let id = or_else (rm_id msg) (''msg_'' @ show_int (n_now e) @ ''_'' @ n_random e k);
               content = or_else (rm_content msg) [];
               role =
                 (if rm_role msg = Some ''user'' \<or> rm_sender msg = Some ''user'' \<or>
                     rm_type msg = Some ''user''
                  then ''user''
                  else if rm_role msg = Some ''assistant'' \<or> rm_sender msg = Some ''bot'' \<or>
                     rm_type msg = Some ''bot''
                  then ''assistant''
                  else or_else (rm_defaultRole msg) ''user'');
               type = (if role = ''user'' then ''user'' else ''bot'');
               timestamp = (case rm_timestamp msg of Some t \<Rightarrow> t | None \<Rightarrow> n_now e);
               language = or_else (rm_language msg) ''en'';
               postgresqlId = (if truthy (rm_postgresqlId msg) then rm_postgresqlId msg else None)
           in Inr \<lparr>m_id = id, m_content = content, m_role = role, m_type = type,
                    m_timestamp = timestamp, m_language = language,
                    m_postgresqlId = postgresqlId\<rparr>))"

text \<open>A raw conversation: an explicit message list, or the legacy pair of strings.\<close>

record raw_conversation =
  rc_id :: "string option"
  rc_sessionId :: "string option"
  rc_chatId :: "string option"
  rc_clientId :: "string option"
  rc_startedAt :: "int option"
  rc_startTime :: "int option"
  rc_endedAt :: "int option"
  rc_language :: "string option"
  rc_topic :: "string option"
  rc_status :: "string option"
  rc_messages :: "raw_message option list option"
  rc_userMessage :: "string option"
  rc_botResponse :: "string option"

record conversation =
  c_id :: string
  c_sessionId :: string
  c_clientId :: string
  c_messages :: "message list"
  c_startedAt :: int
  c_endedAt :: int
  c_language :: string
  c_topic :: string
  c_status :: string

text \<open>
  \<^verbatim>\<open>conversation.messages.map(normalizeMessage)\<close>: the first element that is
  \<^verbatim>\<open>null\<close> or \<^verbatim>\<open>undefined\<close> makes the whole call throw. The \<open>k\<close>-th element uses
  the draw \<open>k\<close>.
\<close>

fun map_normalizeMessage :: "norm_env \<Rightarrow> nat \<Rightarrow> raw_message option list \<Rightarrow> js_error + message list" where
  "map_normalizeMessage e k [] = Inr []"
| "map_normalizeMessage e k (x # xs) =
     (case normalizeMessage e k x of
        Inl err \<Rightarrow> Inl err
      | Inr m \<Rightarrow>
          (case map_normalizeMessage e (Suc k) xs of
             Inl err \<Rightarrow> Inl err
           | Inr ms \<Rightarrow> Inr (m # ms)))"

definition legacy_message :: "string \<Rightarrow> string \<Rightarrow> int \<Rightarrow> raw_message" where
  "legacy_message content role t =
     \<lparr>rm_id = None, rm_content = Some content, rm_role = Some role, rm_sender = None,
      rm_type = None, rm_defaultRole = None, rm_timestamp = Some t, rm_language = None,
      rm_postgresqlId = None\<rparr>"

text \<open>
  \<^verbatim>\<open>normalizeConversation\<close>. Draw 0 names the conversation, draws 1 to \<open>n\<close> the listed
  messages, the two after them the legacy pair. \<^verbatim>\<open>Array.prototype.sort\<close> is stable, as
  is \<open>sort_key\<close>.
\<close>

definition normalizeConversation :: "norm_env \<Rightarrow> raw_conversation option \<Rightarrow> js_error + conversation" where
  "normalizeConversation e conversation =
     (case conversation of
        None \<Rightarrow> Inl NormalizeError
      | Some conv \<Rightarrow>
          (let id = or_else (rc_id conv) (''conv_'' @ show_int (n_now e) @ ''_'' @ n_random e 0);
               sessionId = or_else (rc_sessionId conv) (or_else (rc_chatId conv) id);
               clientId = or_else (rc_clientId conv) ''svorum-strax'';
               startedAt = (case rc_startedAt conv of Some t \<Rightarrow> t
                            | None \<Rightarrow> (case rc_startTime conv of Some t \<Rightarrow> t | None \<Rightarrow> n_now e));
               endedAt = (case rc_endedAt conv of Some t \<Rightarrow> t | None \<Rightarrow> n_now e);
               language = or_else (rc_language conv) ''en'';
               topic = or_else (rc_topic conv) ''general'';
               status = or_else (rc_status conv) ''active'';
               raws = (case rc_messages conv of Some ms \<Rightarrow> ms | None \<Rightarrow> [])
           in
           case map_normalizeMessage e 1 raws of
             Inl err \<Rightarrow> Inl err
           | Inr messages \<Rightarrow>
               (let n = length raws;
                    messages1 =
                      (if truthy (rc_userMessage conv) \<and>
                          \<not> list_ex (\<lambda>m. m_role m = ''user'') messages
                       then
                         (case normalizeMessage e (n + 1)
                                 (Some (legacy_message (or_else (rc_userMessage conv) [])
                                          ''user'' startedAt)) of
                            Inr m \<Rightarrow> messages @ [m]
                          | Inl err \<Rightarrow> messages)
                       else messages);
                    messages2 =
                      (if truthy (rc_botResponse conv) \<and>
                          \<not> list_ex (\<lambda>m. m_role m = ''assistant'') messages1
                       then
                         (case normalizeMessage e (n + 2)
                                 (Some (legacy_message (or_else (rc_botResponse conv) [])
                                          ''assistant'' (startedAt + 1))) of
                            Inr m \<Rightarrow> messages1 @ [m]
                          | Inl err \<Rightarrow> messages1)
                       else messages1)
                in Inr \<lparr>c_id = id, c_sessionId = sessionId, c_clientId = clientId,
                         c_messages = sort_key m_timestamp messages2,
                         c_startedAt = startedAt, c_endedAt = endedAt, c_language = language,
                         c_topic = topic, c_status = status\<rparr>)))"

text \<open>The raw pair \<^verbatim>\<open>{userMessage: "hi", botResponse: "hello"}\<close>.\<close>

definition raw_pair :: raw_conversation where
  "raw_pair =
     \<lparr>rc_id = None, rc_sessionId = None, rc_chatId = None, rc_clientId = None,
      rc_startedAt = None, rc_startTime = None, rc_endedAt = None, rc_language = None,
      rc_topic = None, rc_status = None, rc_messages = None,
      rc_userMessage = Some ''hi'', rc_botResponse = Some ''hello''\<rparr>"

text \<open>The message \<^verbatim>\<open>{content: "x", defaultRole: "system"}\<close>.\<close>

definition raw_system_message :: raw_message where
  "raw_system_message =
     \<lparr>rm_id = None, rm_content = Some ''x'', rm_role = None, rm_sender = None,
      rm_type = None, rm_defaultRole = Some ''system'', rm_timestamp = None,
      rm_language = None, rm_postgresqlId = None\<rparr>"

section \<open>messageProcessor.js\<close>

text \<open>
  A normalized message handed to \<^verbatim>\<open>normalizeConversation\<close> again is read as a raw
  message: the properties \<^verbatim>\<open>normalizeMessage\<close> wrote are the ones present.
\<close>

definition as_raw :: "message \<Rightarrow> raw_message" where
  "as_raw m =
     \<lparr>rm_id = Some (m_id m), rm_content = Some (m_content m), rm_role = Some (m_role m),
      rm_sender = None, rm_type = Some (m_type m), rm_defaultRole = None,
      rm_timestamp = Some (m_timestamp m), rm_language = Some (m_language m),
      rm_postgresqlId = m_postgresqlId m\<rparr>"

text \<open>A stored conversation: the normalized data with the two dates the store adds.\<close>

record conversation_doc = conversation +
  cd_createdAt :: int
  cd_lastActivity :: int

text \<open>A document of \<^verbatim>\<open>message_id_mappings\<close>.\<close>

record mapping_doc =
  mongodbId :: string
  postgresqlId :: string
  md_content :: "string option"
  md_trackingId :: "string option"
  md_createdAt :: int
  md_updatedAt :: "int option"

text \<open>The value kept in \<^verbatim>\<open>analyticsSentMessages\<close> for a signature.\<close>

record sent_record =
  sent_timestamp :: int
  sent_postgresqlId :: "string option"

text \<open>
  The state the message processor works on: the session store, the two collections it
  writes, its two process-local dedup structures (a \<^verbatim>\<open>Set\<close> and a \<^verbatim>\<open>Map\<close>, both in
  insertion order) and the bodies it has POSTed to the analytics API.
\<close>

record world =
  session_state :: session_store
  conversations :: "conversation_doc list"
  message_id_mappings :: "mapping_doc list"
  processedMessages :: "string list"
  analyticsSentMessages :: "(string \<times> sent_record) list"
  analytics_posts :: "conversation list"

text \<open>
  What \<^verbatim>\<open>fetch\<close> does: reject, answer with a non-2xx status, answer 2xx with a body
  \<^verbatim>\<open>json()\<close> cannot parse, or answer 2xx with JSON. Of the JSON only
  \<^verbatim>\<open>responseData.messages\<close> is read: \<open>None\<close> when it is not an array, else the
  \<^verbatim>\<open>id\<close> of each element (\<open>None\<close> for a missing element or id).
\<close>

datatype fetch_outcome =
    FetchRejected
  | FetchNotOk
  | FetchUnparseable
  | FetchJson "string option list option"

record process_env =
  p_now :: int
  p_uuid_user :: string
  p_uuid_bot :: string
  p_random :: "nat \<Rightarrow> string"
  p_session :: session_env
  save_connect_ok :: bool
  save_findOne_ok :: bool
  save_write_ok :: bool
  p_fetch :: fetch_outcome
  map_connect_ok :: bool
  map_insertOne_ok :: "nat \<Rightarrow> bool"

record metadata =
  md_sessionId :: "string option"
  md_language :: "string option"
  md_clientId :: "string option"
  md_topic :: "string option"
  md_status :: "string option"

datatype process_result =
    Processed string string string "string option"
    \<comment> \<open>\<^verbatim>\<open>success: true\<close> with conversationId, userMessageId, botMessageId, postgresqlId\<close>
  | Failed string
    \<comment> \<open>\<^verbatim>\<open>success: false\<close> with its \<^verbatim>\<open>error\<close> code\<close>

record analytics_result =
  a_success :: bool
  a_postgresqlId :: "string option"
  a_deduplicated :: bool

fun update_first :: "('a \<Rightarrow> bool) \<Rightarrow> ('a \<Rightarrow> 'a) \<Rightarrow> 'a list \<Rightarrow> 'a list" where
  "update_first P f [] = []"
| "update_first P f (x # xs) = (if P x then f x # xs else x # update_first P f xs)"

text \<open>\<^verbatim>\<open>saveConversationToMongoDB\<close>: any rejection is caught and nothing more is written.\<close>

definition saveConversationToMongoDB :: "conversation \<Rightarrow> process_env \<Rightarrow> world \<Rightarrow> bool \<times> world" where
  "saveConversationToMongoDB conversationData e w =
     (if save_connect_ok e \<and> save_findOne_ok e \<and> save_write_ok e then
        (case find (\<lambda>d. c_id d = c_id conversationData) (conversations w) of
           Some existingConvo \<Rightarrow>
             (True, w\<lparr>conversations :=
                update_first (\<lambda>d. c_id d = c_id conversationData)
                  (\<lambda>d. d\<lparr>c_messages := c_messages d @ c_messages conversationData,
                          c_endedAt := c_endedAt conversationData,
                          cd_lastActivity := p_now e\<rparr>)
                  (conversations w)\<rparr>)
         | None \<Rightarrow>
             (True, w\<lparr>conversations := conversations w @
                [conversation.extend conversationData
                   \<lparr>cd_createdAt = p_now e, cd_lastActivity = p_now e\<rparr>]\<rparr>))
      else (False, w))"

fun join_with :: "string \<Rightarrow> string list \<Rightarrow> string" where
  "join_with sep [] = []"
| "join_with sep [x] = x"
| "join_with sep (x # y # ys) = x @ sep @ join_with sep (y # ys)"

definition botMessages :: "conversation \<Rightarrow> message list" where
  "botMessages conversationData =
     filter (\<lambda>m. m_role m = ''assistant'' \<or> m_type m = ''bot'') (c_messages conversationData)"

text \<open>
  The forwarding signature: for each assistant message the first 50 characters of its
  content, a dash and its timestamp, joined by a bar. The timestamp string is rendered
  by its millisecond count.
\<close>

definition analytics_signature :: "conversation \<Rightarrow> string" where
  "analytics_signature conversationData =
     join_with ''|''
       (map (\<lambda>m. take 50 (m_content m) @ ''-'' @ show_int (m_timestamp m))
          (botMessages conversationData))"

text \<open>\<^verbatim>\<open>Map.prototype.set\<close>: an existing key keeps its place, a new key goes last.\<close>

fun map_set :: "'k \<Rightarrow> 'v \<Rightarrow> ('k \<times> 'v) list \<Rightarrow> ('k \<times> 'v) list" where
  "map_set k v [] = [(k, v)]"
| "map_set k v (p # ps) = (if fst p = k then (k, v) # ps else p # map_set k v ps)"

text \<open>
  The loop over \<^verbatim>\<open>responseData.messages\<close> (lines 260 to 280), index \<open>i\<close> onwards: the
  mapping documents inserted so far, and the assistant's remote id, or \<open>None\<close> when an
  \<^verbatim>\<open>insertOne\<close> rejected (the documents inserted before it stay).
\<close>

fun store_id_mappings ::
  "process_env \<Rightarrow> nat \<Rightarrow> string option list \<Rightarrow> message list \<Rightarrow> mapping_doc list \<Rightarrow> string option
     \<Rightarrow> mapping_doc list \<times> string option option" where
  "store_id_mappings e i [] origs docs botId = (docs, Some botId)"
| "store_id_mappings e i (pg # pgs) [] docs botId = store_id_mappings e (Suc i) pgs [] docs botId"
| "store_id_mappings e i (pg # pgs) (originalMessage # origs) docs botId =
     (if truthy pg \<and> m_id originalMessage \<noteq> [] then
        (if map_insertOne_ok e i then
           store_id_mappings e (Suc i) pgs origs
             (docs @ [\<lparr>mongodbId = m_id originalMessage, postgresqlId = or_else pg [],
                       md_content = Some (m_content originalMessage), md_trackingId = None,
                       md_createdAt = p_now e, md_updatedAt = None\<rparr>])
             (if m_role originalMessage = ''assistant'' \<or> m_type originalMessage = ''bot''
              then pg else botId)
         else (docs, None))
      else store_id_mappings e (Suc i) pgs origs docs botId)"

definition ONE_DAY :: int where
  "ONE_DAY = 24 * 60 * 60 * 1000"

text \<open>\<^verbatim>\<open>sendConversationToAnalytics\<close>.\<close>

definition sendConversationToAnalytics ::
  "conversation \<Rightarrow> process_env \<Rightarrow> world \<Rightarrow> analytics_result \<times> world" where
  "sendConversationToAnalytics conversationData e w =
     (case (if botMessages conversationData \<noteq> []
            then map_of (analyticsSentMessages w) (analytics_signature conversationData)
            else None) of
        Some previouslySent \<Rightarrow>
          (\<lparr>a_success = True, a_postgresqlId = sent_postgresqlId previouslySent,
            a_deduplicated = True\<rparr>, w)
      | None \<Rightarrow>
          (let w1 = w\<lparr>analytics_posts := analytics_posts w @ [conversationData]\<rparr> in
           case p_fetch e of
             FetchRejected \<Rightarrow>
               (\<lparr>a_success = False, a_postgresqlId = None, a_deduplicated = False\<rparr>, w1)
           | FetchNotOk \<Rightarrow>
               (\<lparr>a_success = False, a_postgresqlId = None, a_deduplicated = False\<rparr>, w1)
           | FetchUnparseable \<Rightarrow>
               (\<lparr>a_success = True, a_postgresqlId = None, a_deduplicated = False\<rparr>, w1)
           | FetchJson None \<Rightarrow>
               (\<lparr>a_success = True, a_postgresqlId = None, a_deduplicated = False\<rparr>, w1)
           | FetchJson (Some pgMessages) \<Rightarrow>
               if \<not> map_connect_ok e then
                 (\<lparr>a_success = True, a_postgresqlId = None, a_deduplicated = False\<rparr>, w1)
               else
                 (case store_id_mappings e 0 pgMessages (c_messages conversationData)
                         (message_id_mappings w1) None of
                    (docs, None) \<Rightarrow>
                      (\<lparr>a_success = True, a_postgresqlId = None, a_deduplicated = False\<rparr>,
                       w1\<lparr>message_id_mappings := docs\<rparr>)
                  | (docs, Some botMessagePostgresqlId) \<Rightarrow>
                      (let w2 = w1\<lparr>message_id_mappings := docs\<rparr>;
                           w3 =
                             (if botMessages conversationData \<noteq> [] then
                                (let sent = map_set (analytics_signature conversationData)
                                              \<lparr>sent_timestamp = p_now e,
                                               sent_postgresqlId = botMessagePostgresqlId\<rparr>
                                              (analyticsSentMessages w2)
                                 in w2\<lparr>analyticsSentMessages :=
                                      (if length sent > 500
                                       then filter (\<lambda>(key, v). \<not> sent_timestamp v < p_now e - ONE_DAY)
                                              sent
                                       else sent)\<rparr>)
                              else w2)
                       in (\<lparr>a_success = True, a_postgresqlId = botMessagePostgresqlId,
                            a_deduplicated = False\<rparr>, w3)))))"

text \<open>The dedup signature of a message pair (line 49).\<close>

definition messageSignature :: "string \<Rightarrow> string \<Rightarrow> string \<Rightarrow> string" where
  "messageSignature cid userMessage botResponse =
     cid @ '':'' @ take 40 userMessage @ '':'' @ take 40 botResponse"

text \<open>
  \<^verbatim>\<open>processedMessages.add\<close> followed by the cleanup of lines 65 to 68: beyond 1000
  entries the 500 oldest are deleted.
\<close>

definition remember_signature :: "string \<Rightarrow> string list \<Rightarrow> string list" where
  "remember_signature sig processed =
     (let added = (if sig \<in> set processed then processed else processed @ [sig])
      in if length added > 1000 then drop 500 added else added)"

text \<open>
  \<^verbatim>\<open>processMessagePair\<close>. The texts are strings; an error thrown inside the
  \<^verbatim>\<open>try\<close> block is answered with \<^verbatim>\<open>processing_error\<close>.
\<close>

definition processMessagePair ::
  "string \<Rightarrow> string \<Rightarrow> metadata \<Rightarrow> process_env \<Rightarrow> world \<Rightarrow> process_result \<times> world" where
  "processMessagePair userMessage botResponse md e w =
     (if userMessage = [] \<or> botResponse = [] then (Failed ''incomplete_message_pair'', w)
      else
        case getOrCreateSession (md_sessionId md) (p_session e) (session_state w) of
          Inl err \<Rightarrow> (Failed ''processing_error'', w)
        | Inr (sessionInfo, store') \<Rightarrow>
            (let w1 = w\<lparr>session_state := store'\<rparr>;
                 sig = messageSignature (conversationId sessionInfo) userMessage botResponse
             in
             if sig \<in> set (processedMessages w1) then (Failed ''duplicate_message'', w1)
             else
               (let w2 = w1\<lparr>processedMessages := remember_signature sig (processedMessages w1)\<rparr>;
                    userMessageId = ''user-msg-'' @ show_int (p_now e) @ ''-'' @ p_uuid_user e;
                    botMessageId = ''bot-msg-'' @ show_int (p_now e + 1) @ ''-'' @ p_uuid_bot e;
                    ne = \<lparr>n_now = p_now e, n_random = p_random e\<rparr>;
                    language = or_else (md_language md) ''en''
                in
                case normalizeMessage ne 0
                       (Some \<lparr>rm_id = Some userMessageId, rm_content = Some userMessage,
                              rm_role = Some ''user'', rm_sender = Some ''user'', rm_type = None,
                              rm_defaultRole = None, rm_timestamp = Some (p_now e),
                              rm_language = Some language, rm_postgresqlId = None\<rparr>) of
                  Inl err \<Rightarrow> (Failed ''processing_error'', w2)
                | Inr normalizedUserMessage \<Rightarrow>
                   (case normalizeMessage ne 0
                          (Some \<lparr>rm_id = Some botMessageId, rm_content = Some botResponse,
                                 rm_role = Some ''assistant'', rm_sender = Some ''bot'',
                                 rm_type = None, rm_defaultRole = None,
                                 rm_timestamp = Some (p_now e + 1),
                                 rm_language = Some language, rm_postgresqlId = None\<rparr>) of
                      Inl err \<Rightarrow> (Failed ''processing_error'', w2)
                    | Inr normalizedBotMessage \<Rightarrow>
                       (case normalizeConversation ne
                              (Some \<lparr>rc_id = Some (conversationId sessionInfo),
                                     rc_sessionId = Some (sessionId sessionInfo),
                                     rc_chatId = None,
                                     rc_clientId = Some (or_else (md_clientId md) ''svorum-strax''),
                                     rc_startedAt = Some (startedAt sessionInfo),
                                     rc_startTime = None, rc_endedAt = Some (p_now e),
                                     rc_language = Some language,
                                     rc_topic = Some (or_else (md_topic md) ''general''),
                                     rc_status = Some (or_else (md_status md) ''active''),
                                     rc_messages = Some [Some (as_raw normalizedUserMessage),
                                                         Some (as_raw normalizedBotMessage)],
                                     rc_userMessage = None, rc_botResponse = None\<rparr>) of
                          Inl err \<Rightarrow> (Failed ''processing_error'', w2)
                        | Inr conversationData \<Rightarrow>
                           (let (saved, w3) = saveConversationToMongoDB conversationData e w2;
                                (analyticsResult, w4) =
                                  sendConversationToAnalytics conversationData e w3
                            in (Processed (conversationId sessionInfo) userMessageId botMessageId
                                  (if truthy (a_postgresqlId analyticsResult)
                                   then a_postgresqlId analyticsResult else None),
                                w4)))))))"


text \<open>
  A first exchange on an empty system: token \<^verbatim>\<open>s1\<close>, every collaborator answering, the
  analytics API returning the remote ids \<^verbatim>\<open>pg-41\<close> and \<^verbatim>\<open>pg-42\<close>.
\<close>

definition demo_world :: world where
  "demo_world =
     \<lparr>session_state = \<lparr>sessionCache = Map.empty, globalSessions = []\<rparr>,
      conversations = [], message_id_mappings = [], processedMessages = [],
      analyticsSentMessages = [], analytics_posts = []\<rparr>"

definition demo_env :: "int \<Rightarrow> process_env" where
  "demo_env t =
     \<lparr>p_now = t, p_uuid_user = ''1b9d6bcd'', p_uuid_bot = ''9c4f1a07'',
      p_random = (\<lambda>k. ''x7k2m9qa''), p_session = env_at t True,
      save_connect_ok = True, save_findOne_ok = True, save_write_ok = True,
      p_fetch = FetchJson (Some [Some ''pg-41'', Some ''pg-42'']),
      map_connect_ok = True, map_insertOne_ok = (\<lambda>i. True)\<rparr>"










text \<open>
  The collaborators during one call of \<^verbatim>\<open>createMessageIdMapping\<close> or of the lookup in
  \<^verbatim>\<open>getMessageFeedback\<close>.
\<close>

record mapping_env =
  mp_now :: int
  mp_uuid_mongo :: string
  mp_uuid_pg :: string
  mp_uuid_tracking :: string
  mp_connect_ok :: bool
  mp_findOne_ok :: bool
  mp_write_ok :: bool

datatype mapping_result =
    MappingUpdated string string
  | MappingCreated string string
  | MappingFailed

text \<open>
  \<^verbatim>\<open>createMessageIdMapping\<close> of messageProcessor.js. \<^verbatim>\<open>findOne\<close> with \<^verbatim>\<open>$or\<close> returns
  the first document matching either side; \<^verbatim>\<open>updateOne\<close> by its \<^verbatim>\<open>_id\<close> changes that
  document.
\<close>

definition createMessageIdMapping ::
  "string option \<Rightarrow> string option \<Rightarrow> string option \<Rightarrow> mapping_env \<Rightarrow> world
     \<Rightarrow> mapping_result \<times> world" where
  "createMessageIdMapping mongodbId0 postgresqlId0 content e w =
     (let mongoId = or_else mongodbId0 (''mongo-'' @ mp_uuid_mongo e);
          pgId = or_else postgresqlId0 (''pg-'' @ mp_uuid_pg e);
          either = (\<lambda>d. mongodbId d = mongoId \<or> postgresqlId d = pgId)
      in
      if mp_connect_ok e \<and> mp_findOne_ok e \<and> mp_write_ok e then
        (case find either (message_id_mappings w) of
           Some existingMapping \<Rightarrow>
             (MappingUpdated mongoId pgId,
              w\<lparr>message_id_mappings :=
                   update_first either
                     (\<lambda>d. d\<lparr>mongodbId := mongoId, postgresqlId := pgId,
                             md_content := (if truthy content then content else md_content d),
                             md_updatedAt := Some (mp_now e)\<rparr>)
                     (message_id_mappings w)\<rparr>)
         | None \<Rightarrow>
             (MappingCreated mongoId pgId,
              w\<lparr>message_id_mappings := message_id_mappings w @
                   [\<lparr>mongodbId = mongoId, postgresqlId = pgId,
                     md_content = (if truthy content then content else None),
                     md_trackingId = Some (mp_uuid_tracking e),
                     md_createdAt = mp_now e, md_updatedAt = None\<rparr>]\<rparr>))
      else (MappingFailed, w))"

text \<open>
  The lookup of \<^verbatim>\<open>getMessageFeedback\<close> (lines 337 to 348): the first mapping with the
  given id on either side, and the remote id it resolves to
  (\<^verbatim>\<open>mapping?.postgresqlId || messageId\<close>). \<open>None\<close> when the store rejects: the
  function then returns \<^verbatim>\<open>null\<close>.
\<close>

definition getMessageFeedback_mapping ::
  "string \<Rightarrow> mapping_env \<Rightarrow> world \<Rightarrow> (mapping_doc option \<times> string) option" where
  "getMessageFeedback_mapping messageId e w =
     (if mp_connect_ok e \<and> mp_findOne_ok e then
        (let mapping = find (\<lambda>d. mongodbId d = messageId \<or> postgresqlId d = messageId)
                         (message_id_mappings w)
         in Some (mapping,
                  (case mapping of
                     Some m \<Rightarrow> or_else (Some (postgresqlId m)) messageId
                   | None \<Rightarrow> messageId)))
      else None)"

text \<open>The identifier spaces do not cross: \<open>a\<close> is nobody's remote id, \<open>b\<close> nobody's local id.\<close>

definition ids_apart :: "string \<Rightarrow> string \<Rightarrow> mapping_doc list \<Rightarrow> bool" where
  "ids_apart a b docs = list_all (\<lambda>d. postgresqlId d \<noteq> a \<and> mongodbId d \<noteq> b) docs"

text \<open>
  A store that is reachable, and a collection in which \<^verbatim>\<open>msg-7\<close> already stands as the
  remote side of another mapping.
\<close>

definition mapping_env_up :: mapping_env where
  "mapping_env_up =
     \<lparr>mp_now = 0, mp_uuid_mongo = ''6ba7b810'', mp_uuid_pg = ''6ba7b811'',
      mp_uuid_tracking = ''6ba7b812'', mp_connect_ok = True, mp_findOne_ok = True,
      mp_write_ok = True\<rparr>"

definition crossed_world :: world where
  "crossed_world =
     demo_world\<lparr>message_id_mappings :=
       [\<lparr>mongodbId = ''msg-1'', postgresqlId = ''msg-7'', md_content = None,
         md_trackingId = None, md_createdAt = 0, md_updatedAt = None\<rparr>]\<rparr>"

section \<open>index.js: the response cache and the chat handler\<close>

text \<open>
  The payload of a reply (\<^verbatim>\<open>responseData\<close>; \<^verbatim>\<open>debugInfo\<close>, set only in development, is
  left out). \<^verbatim>\<open>threadId\<close> is a property of the main server's payload only.
\<close>

record response_data =
  r_message :: string
  r_sessionId :: "string option"
  r_threadId :: "string option"
  r_postgresqlMessageId :: "string option"
  r_language_detected :: string
  r_language_isIcelandic :: bool
  r_topic :: string

text \<open>
  A cache entry \<^verbatim>\<open>{response, timestamp}\<close> is an object: the \<^verbatim>\<open>Map\<close> holds a reference to
  it, and so does the variable \<^verbatim>\<open>cached\<close> that the background continuation captures.
  Entries live in a store of objects, addressed by numbers; the cache maps a key to an
  address.
\<close>

record cache_entry =
  ce_response :: response_data
  ce_timestamp :: int

record chat_history =
  h_messages :: "(string \<times> string) list"
  h_createdAt :: int

record server =
  core :: world
  responseCache :: "string \<rightharpoonup> nat"
  objects :: "nat \<rightharpoonup> cache_entry"
  next_object :: nat
  sessions :: "string option \<rightharpoonup> chat_history"
  pusher_events :: "(string \<times> string \<times> string) list"

definition CACHE_TTL :: int where
  "CACHE_TTL = 3600000"

text \<open>
  Reading the cache (lines 865 to 871): \<^verbatim>\<open>responseCache.get(cacheKey)\<close> and the staleness
  test \<^verbatim>\<open>cached && Date.now() - cached.timestamp < 3600000\<close>.
\<close>

definition cache_ref :: "string \<Rightarrow> server \<Rightarrow> nat option" where
  "cache_ref cacheKey sv = responseCache sv cacheKey"

definition cache_get :: "string \<Rightarrow> int \<Rightarrow> server \<Rightarrow> response_data option" where
  "cache_get cacheKey t sv =
     (case cache_ref cacheKey sv of
        None \<Rightarrow> None
      | Some a \<Rightarrow>
          (case objects sv a of
             None \<Rightarrow> None
           | Some cached \<Rightarrow>
               if t - ce_timestamp cached < CACHE_TTL then Some (ce_response cached) else None))"

text \<open>
  Writing the cache (lines 981 to 984): a new entry object is created and
  \<^verbatim>\<open>responseCache.set\<close> makes the key refer to it.
\<close>

definition cache_put :: "string \<Rightarrow> response_data \<Rightarrow> int \<Rightarrow> server \<Rightarrow> server" where
  "cache_put cacheKey responseData t sv =
     sv\<lparr>objects := (objects sv)(next_object sv \<mapsto>
                       \<lparr>ce_response = responseData, ce_timestamp = t\<rparr>),
        next_object := Suc (next_object sv),
        responseCache := (responseCache sv)(cacheKey \<mapsto> next_object sv)\<rparr>"

text \<open>
  A request body. The old format carries \<^verbatim>\<open>messages\<close> (here the \<^verbatim>\<open>content\<close> of each
  element) and \<^verbatim>\<open>threadId\<close>; the new one \<^verbatim>\<open>message\<close> and \<^verbatim>\<open>sessionId\<close>. Of images and
  files only the number matters to the correlation core.
\<close>

record chat_request =
  body_messages :: "string option list option"
  body_threadId :: "string option"
  body_message :: "string option"
  body_sessionId :: "string option"
  body_language :: "string option"
  body_images :: "nat option"
  body_files :: "nat option"

text \<open>
  What the handler's collaborators do during one request: the clock, the session store's
  environment, the file extractor and the language model (\<open>None\<close> when the call rejects),
  and the text functions built on JavaScript's Unicode tables and regular expressions.
\<close>

record handler_env =
  h_now :: int
  h_session :: session_env
  h_file_context :: "string option"
  h_completion :: "string option"
  lower_trim :: "string \<Rightarrow> string"
  has_icelandic :: "string \<Rightarrow> bool"
  detectTopic :: "string \<Rightarrow> string"

datatype http_response =
    Json200 response_data
  | Status400
  | Status500

text \<open>What \<^verbatim>\<open>setImmediate\<close> is handed: the variables the closure captures.\<close>

record continuation =
  k_userMessage :: string
  k_response :: string
  k_language :: string
  k_topic :: string
  k_sessionId :: "string option"
  k_cached :: "nat option"

definition FILE_PLACEHOLDER :: string where
  "FILE_PLACEHOLDER = ''[Skjal sent]''"

definition IMAGE_PLACEHOLDER :: string where
  "IMAGE_PLACEHOLDER = ''[Mynd send]''"

definition count_of :: "nat option \<Rightarrow> nat" where
  "count_of n = (case n of None \<Rightarrow> 0 | Some k \<Rightarrow> k)"

text \<open>The three values the handler first reads from the body (lines 830 to 845).\<close>

definition request_userMessage :: "chat_request \<Rightarrow> string option" where
  "request_userMessage req =
     (case body_messages req of
        Some ms \<Rightarrow> Some (or_else (if ms = [] then None else last ms) [])
      | None \<Rightarrow> body_message req)"

definition request_sessionId :: "chat_request \<Rightarrow> int \<Rightarrow> string" where
  "request_sessionId req t =
     (case body_messages req of
        Some ms \<Rightarrow> or_else (body_threadId req) (''session_'' @ show_int t)
      | None \<Rightarrow> or_else (body_sessionId req) (''session_'' @ show_int t))"

definition request_language :: "chat_request \<Rightarrow> handler_env \<Rightarrow> string" where
  "request_language req e =
     or_else (body_language req)
       (if (case request_userMessage req of Some m \<Rightarrow> has_icelandic e m | None \<Rightarrow> False)
        then ''is'' else ''en'')"

definition request_cacheKey :: "chat_request \<Rightarrow> handler_env \<Rightarrow> string" where
  "request_cacheKey req e =
     request_sessionId req (h_now e) @ '':'' @
     (case request_userMessage req of Some m \<Rightarrow> lower_trim e m | None \<Rightarrow> ''undefined'') @ '':'' @
     request_language req e @ '':'' @
     show_nat (count_of (body_images req)) @ '':'' @ show_nat (count_of (body_files req))"

definition request_valid :: "chat_request \<Rightarrow> bool" where
  "request_valid req =
     (truthy (request_userMessage req) \<or> count_of (body_images req) > 0 \<or>
      count_of (body_files req) > 0)"

text \<open>
  The \<^verbatim>\<open>/chat\<close> handler (lines 826 to 1028): the response, the state it leaves, and the
  continuation it schedules, if any.
\<close>

definition chat_handler ::
  "chat_request \<Rightarrow> handler_env \<Rightarrow> server \<Rightarrow> http_response \<times> server \<times> continuation option" where
  "chat_handler req e sv =
     (let userMessage = request_userMessage req;
          sessionId = request_sessionId req (h_now e);
          images = count_of (body_images req);
          files = count_of (body_files req)
      in
      if \<not> request_valid req then (Status400, sv, None)
      else
        (let detectedLanguage = request_language req e;
             cacheKey = request_cacheKey req e;
             cached = cache_ref cacheKey sv
         in
         case cache_get cacheKey (h_now e) sv of
           Some response \<Rightarrow> (Json200 response, sv, None)
         | None \<Rightarrow>
             (case getOrCreateSession (Some sessionId) (h_session e) (session_state (core sv)) of
                Inl err \<Rightarrow> (Status500, sv, None)
              | Inr (sessionInfo, store') \<Rightarrow>
                  (let sv1 = sv\<lparr>core := (core sv)\<lparr>session_state := store'\<rparr>\<rparr>;
                       session = (case sessions sv1 (Some sessionId) of
                                    Some h \<Rightarrow> h
                                  | None \<Rightarrow> \<lparr>h_messages = [], h_createdAt = h_now e\<rparr>);
                       sv2 = sv1\<lparr>sessions := (sessions sv1)(Some sessionId \<mapsto> session)\<rparr>
                   in
                   case (if files > 0 then h_file_context e else Some []) of
                     None \<Rightarrow> (Status500, sv2, None)
                   | Some fileContext \<Rightarrow>
                       (let shown = or_else userMessage
                                      (if files > 0 then FILE_PLACEHOLDER else IMAGE_PLACEHOLDER);
                            pushed = h_messages session @ [(''user'', shown)];
                            kept = (if length pushed > 10 then drop (length pushed - 10) pushed
                                    else pushed);
                            sv3 = sv2\<lparr>sessions := (sessions sv2)
                                     (Some sessionId \<mapsto> session\<lparr>h_messages := kept\<rparr>)\<rparr>
                        in
                        case h_completion e of
                          None \<Rightarrow> (Status500, sv3, None)
                        | Some response \<Rightarrow>
                            (let sv4 = sv3\<lparr>sessions := (sessions sv3)
                                          (Some sessionId \<mapsto>
                                             session\<lparr>h_messages := kept @ [(''assistant'', response)]\<rparr>)\<rparr>;
                                 detectedTopic = detectTopic e (or_else userMessage ''file upload'');
                                 responseData =
                                   \<lparr>r_message = response, r_sessionId = Some sessionId,
                                    r_threadId = Some sessionId, r_postgresqlMessageId = None,
                                    r_language_detected = detectedLanguage,
                                    r_language_isIcelandic = (detectedLanguage = ''is''),
                                    r_topic = detectedTopic\<rparr>;
                                 sv5 = cache_put cacheKey responseData (h_now e) sv4
                             in (Json200 responseData, sv5,
                                 Some \<lparr>k_userMessage = shown, k_response = response,
                                       k_language = detectedLanguage, k_topic = detectedTopic,
                                       k_sessionId = Some sessionId, k_cached = cached\<rparr>)))))))"

text \<open>
  The \<^verbatim>\<open>/chat\<close> handler of the speed-optimized server variant (its lines 1095 to
  1244). It reads \<^verbatim>\<open>message\<close> and \<^verbatim>\<open>sessionId\<close> only and does not validate them:
  \<^verbatim>\<open>message.match\<close> throws on a missing message, which the handler's \<^verbatim>\<open>catch\<close> answers
  with status 500, and a missing \<^verbatim>\<open>sessionId\<close> is rendered \<^verbatim>\<open>undefined\<close> in the key.
\<close>

definition optimized_cacheKey :: "string option \<Rightarrow> string \<Rightarrow> handler_env \<Rightarrow> string" where
  "optimized_cacheKey sid message e =
     (case sid of Some s \<Rightarrow> s | None \<Rightarrow> ''undefined'') @ '':'' @
     lower_trim e message @ '':'' @ (if has_icelandic e message then ''is'' else ''en'')"

definition chat_handler_optimized ::
  "chat_request \<Rightarrow> handler_env \<Rightarrow> server \<Rightarrow> http_response \<times> server \<times> continuation option" where
  "chat_handler_optimized req e sv =
     (case body_message req of
        None \<Rightarrow> (Status500, sv, None)
      | Some message \<Rightarrow>
          (let sessionId = body_sessionId req;
               detectedLanguage = (if has_icelandic e message then ''is'' else ''en'');
               cacheKey = optimized_cacheKey sessionId message e;
               cached = cache_ref cacheKey sv
           in
           case cache_get cacheKey (h_now e) sv of
             Some response \<Rightarrow> (Json200 response, sv, None)
           | None \<Rightarrow>
               (case getOrCreateSession sessionId (h_session e) (session_state (core sv)) of
                  Inl err \<Rightarrow> (Status500, sv, None)
                | Inr (sessionInfo, store') \<Rightarrow>
                    (let sv1 = sv\<lparr>core := (core sv)\<lparr>session_state := store'\<rparr>\<rparr>;
                         session = (case sessions sv1 sessionId of
                                      Some h \<Rightarrow> h
                                    | None \<Rightarrow> \<lparr>h_messages = [], h_createdAt = h_now e\<rparr>);
                         pushed = h_messages session @ [(''user'', message)];
                         kept = (if length pushed > 10 then drop (length pushed - 10) pushed
                                 else pushed);
                         sv3 = sv1\<lparr>sessions := (sessions sv1)
                                  (sessionId \<mapsto> session\<lparr>h_messages := kept\<rparr>)\<rparr>
                     in
                     case h_completion e of
                       None \<Rightarrow> (Status500, sv3, None)
                     | Some response \<Rightarrow>
                         (let sv4 = sv3\<lparr>sessions := (sessions sv3)
                                       (sessionId \<mapsto>
                                          session\<lparr>h_messages := kept @ [(''assistant'', response)]\<rparr>)\<rparr>;
                              detectedTopic = detectTopic e message;
                              responseData =
                                \<lparr>r_message = response, r_sessionId = sessionId,
                                 r_threadId = None, r_postgresqlMessageId = None,
                                 r_language_detected = detectedLanguage,
                                 r_language_isIcelandic = (detectedLanguage = ''is''),
                                 r_topic = detectedTopic\<rparr>;
                              sv5 = cache_put cacheKey responseData (h_now e) sv4
                          in (Json200 responseData, sv5,
                              Some \<lparr>k_userMessage = message, k_response = response,
                                    k_language = detectedLanguage, k_topic = detectedTopic,
                                    k_sessionId = sessionId, k_cached = cached\<rparr>))))))"

text \<open>What \<^verbatim>\<open>broadcastConversation\<close> answers.\<close>

record broadcast_result =
  b_success :: bool
  b_postgresqlId :: "string option"

text \<open>
  The collaborators during the continuation: those of \<^verbatim>\<open>processMessagePair\<close>, those of
  the second \<^verbatim>\<open>getOrCreateSession\<close>, and whether \<^verbatim>\<open>pusher.trigger\<close> resolves.
\<close>

record continuation_env =
  k_process :: process_env
  k_session :: session_env
  k_pusher_ok :: bool

text \<open>\<^verbatim>\<open>broadcastConversation\<close> (lines 302 to 377).\<close>

definition broadcastConversation ::
  "string \<Rightarrow> string \<Rightarrow> string \<Rightarrow> string \<Rightarrow> string option \<Rightarrow> string \<Rightarrow> continuation_env \<Rightarrow> server
     \<Rightarrow> broadcast_result \<times> server" where
  "broadcastConversation userMessage botResponse language topic clientSessionId status e sv =
     (if userMessage = [] \<or> botResponse = [] then
        (\<lparr>b_success = False, b_postgresqlId = None\<rparr>, sv)
      else
        (case processMessagePair userMessage botResponse
                \<lparr>md_sessionId = clientSessionId, md_language = Some language,
                 md_clientId = Some ''svorum-strax'', md_topic = Some topic,
                 md_status = Some status\<rparr>
                (k_process e) (core sv) of
           (Processed cid userMessageId botMessageId pgId, w1) \<Rightarrow>
             (case getOrCreateSession clientSessionId (k_session e) (session_state w1) of
                Inl err \<Rightarrow> (\<lparr>b_success = False, b_postgresqlId = None\<rparr>, sv\<lparr>core := w1\<rparr>)
              | Inr (sessionInfo, store') \<Rightarrow>
                  (let sv1 = sv\<lparr>core := w1\<lparr>session_state := store'\<rparr>\<rparr> in
                   if k_pusher_ok e then
                     (\<lparr>b_success = True, b_postgresqlId = pgId\<rparr>,
                      sv1\<lparr>pusher_events := pusher_events sv1 @
                            [(conversationId sessionInfo, userMessage, botResponse)]\<rparr>)
                   else (\<lparr>b_success = False, b_postgresqlId = None\<rparr>, sv1)))
         | (Failed err, w1) \<Rightarrow>
             (\<lparr>b_success = False, b_postgresqlId = None\<rparr>, sv\<lparr>core := w1\<rparr>)))"

text \<open>
  The continuation (lines 987 to 1010): broadcast, then write the remote id into the
  object the captured variable \<^verbatim>\<open>cached\<close> refers to, when there is an id and
  \<^verbatim>\<open>cached\<close> is not \<^verbatim>\<open>undefined\<close>.
\<close>

definition run_continuation :: "continuation \<Rightarrow> continuation_env \<Rightarrow> server \<Rightarrow> broadcast_result \<times> server" where
  "run_continuation k e sv =
     (case broadcastConversation (k_userMessage k) (k_response k) (k_language k) (k_topic k)
             (k_sessionId k) ''active'' e sv of
        (broadcastResult, sv1) \<Rightarrow>
          (broadcastResult,
           (case (if truthy (b_postgresqlId broadcastResult) then k_cached k else None) of
              Some a \<Rightarrow>
                (case objects sv1 a of
                   Some cached \<Rightarrow>
                     sv1\<lparr>objects := (objects sv1)(a \<mapsto>
                           cached\<lparr>ce_response := (ce_response cached)
                             \<lparr>r_postgresqlMessageId := b_postgresqlId broadcastResult\<rparr>\<rparr>)\<rparr>
                 | None \<Rightarrow> sv1)
            | None \<Rightarrow> sv1)))"

text \<open>Every address the cache refers to has been allocated.\<close>

definition refs_allocated :: "server \<Rightarrow> bool" where
  "refs_allocated sv = (\<forall>key a. responseCache sv key = Some a \<longrightarrow> a < next_object sv)"

text \<open>
  A server that has just started; the request \<^verbatim>\<open>{message: "hi", sessionId: "s1"}\<close>; a
  request environment in which the model answers \<^verbatim>\<open>hello\<close> (the text functions are
  stand-ins that fit these ASCII inputs); a continuation environment in which every
  collaborator answers.
\<close>

definition empty_server :: server where
  "empty_server =
     \<lparr>core = demo_world, responseCache = Map.empty, objects = Map.empty, next_object = 0,
      sessions = Map.empty, pusher_events = []\<rparr>"

definition hi_request :: chat_request where
  "hi_request =
     \<lparr>body_messages = None, body_threadId = None, body_message = Some ''hi'',
      body_sessionId = Some ''s1'', body_language = None, body_images = None,
      body_files = None\<rparr>"

definition handler_env_at :: "int \<Rightarrow> handler_env" where
  "handler_env_at t =
     \<lparr>h_now = t, h_session = env_at t True, h_file_context = Some [],
      h_completion = Some ''hello'', lower_trim = (\<lambda>s. s), has_icelandic = (\<lambda>s. False),
      detectTopic = (\<lambda>s. ''general'')\<rparr>"

definition continuation_env_at :: "int \<Rightarrow> continuation_env" where
  "continuation_env_at t =
     \<lparr>k_process = demo_env t, k_session = env_at t True, k_pusher_ok = True\<rparr>"

definition hi_response :: response_data where
  "hi_response =
     \<lparr>r_message = ''hello'', r_sessionId = Some ''s1'', r_threadId = Some ''s1'',
      r_postgresqlMessageId = None, r_language_detected = ''en'',
      r_language_isIcelandic = False, r_topic = ''general''\<rparr>"

definition hi_continuation :: continuation where
  "hi_continuation =
     \<lparr>k_userMessage = ''hi'', k_response = ''hello'', k_language = ''en'',
      k_topic = ''general'', k_sessionId = Some ''s1'', k_cached = None\<rparr>"

text \<open>The server after it has answered that request at time 0.\<close>

definition hi_server :: server where
  "hi_server =
     \<lparr>core = demo_world\<lparr>session_state :=
         \<lparr>sessionCache = [''s1'' \<mapsto>
            \<lparr>sessionId = ''s1'', conversationId = ''s1_0'', startedAt = 0, lastActivity = 0,
             isNewSession = True, previousConversationId = None\<rparr>],
          globalSessions = [new_doc ''s1'' ''s1_0'' 0]\<rparr>\<rparr>,
      responseCache = [''s1:hi:en:0:0'' \<mapsto> 0],
      objects = [0 \<mapsto> \<lparr>ce_response = hi_response, ce_timestamp = 0\<rparr>],
      next_object = 1,
      sessions = [Some ''s1'' \<mapsto>
        \<lparr>h_messages = [(''user'', ''hi''), (''assistant'', ''hello'')], h_createdAt = 0\<rparr>],
      pusher_events = []\<rparr>"

section \<open>Properties\<close>

subsection \<open>Decimal rendering\<close>

lemma show_nat_nonempty: "show_nat n \<noteq> []"
  by (subst show_nat.simps) simp







lemma show_int_nonempty: "show_int i \<noteq> []"
  by (simp add: show_int_def show_nat_nonempty)

subsection \<open>Session store\<close>

lemma or_else_Some [simp]: "s \<noteq> [] \<Longrightarrow> or_else (Some s) d = s"
  by (simp add: or_else_def)

lemma or_else_nonempty: "d \<noteq> [] \<Longrightarrow> or_else v d \<noteq> []"
  by (simp add: or_else_def split: option.splits)



lemma show_int_0: "show_int 0 = ''0''"
  by (simp add: show_int_def show_nat.simps digit_char_def)




lemma store_ok_updateOne:
  "\<forall>d \<in> set ds. d_sessionId d \<noteq> [] \<Longrightarrow> \<forall>d \<in> set (updateOne_lastActivity c t ds). d_sessionId d \<noteq> []"
  by (induction ds) auto

lemma findOne_session_mem: "findOne_session k ds = Some x \<Longrightarrow> x \<in> set ds"
  by (auto simp: findOne_session_def find_Some_iff)

text \<open>
  Claim C9. For every token (absent or not), every clock reading and every combination of
  storage failures, \<^verbatim>\<open>getOrCreateSession\<close> returns a session, never an error; its
  \<^verbatim>\<open>sessionId\<close> and \<^verbatim>\<open>conversationId\<close> are non-empty, the store invariant is kept,
  and when the connection fails nothing is written to the collection.
\<close>

theorem getOrCreateSession_never_raises:
  assumes ok: "store_ok w"
  shows "\<exists>s w'. getOrCreateSession sid e w = Inr (s, w') \<and>
           sessionId s \<noteq> [] \<and> conversationId s \<noteq> [] \<and> store_ok w' \<and>
           (if connect_ok e then True else globalSessions w' = globalSessions w)"
proof -
  let ?k = "or_else sid (''session_'' @ show_int (now e) @ ''_'' @ random_suffix e)"
  have k: "?k \<noteq> []" by (rule or_else_nonempty) simp
  show ?thesis
  proof (cases "sessionCache w ?k")
    case (Some c)
    with ok have c: "sessionId c \<noteq> []" "conversationId c \<noteq> []"
      by (auto simp: store_ok_def)
    show ?thesis
      using Some k c ok store_ok_updateOne
      by (auto simp: getOrCreateSession_def getOrCreateSession_try_def Let_def store_ok_def timeout_doc_def)
  next
    case None
    show ?thesis
    proof (cases "connect_ok e \<and> findOne_ok e")
      case False
      then show ?thesis
        using None k ok
        by (auto simp: getOrCreateSession_def getOrCreateSession_try_def Let_def store_ok_def new_doc_def)
    next
      case True
      show ?thesis
      proof (cases "findOne_session ?k (globalSessions w)")
        case N: None
        then show ?thesis
          using None True k ok
          by (auto simp: getOrCreateSession_def getOrCreateSession_try_def Let_def store_ok_def new_doc_def)
      next
        case (Some x)
        then have "d_sessionId x \<noteq> []" using ok findOne_session_mem by (auto simp: store_ok_def)
        then show ?thesis
          using None True Some k ok store_ok_updateOne
          by (auto simp: getOrCreateSession_def getOrCreateSession_try_def Let_def store_ok_def new_doc_def timeout_doc_def)
      qed
    qed
  qed
qed

theorem getOrCreateSession_never_raises_witness:
  "store_ok rollover_store \<and>
   (\<exists>s w'. getOrCreateSession None (env_at 1260000 False) rollover_store = Inr (s, w') \<and>
      sessionId s \<noteq> [] \<and> conversationId s \<noteq> [] \<and> store_ok w' \<and>
      globalSessions w' = globalSessions rollover_store)"
proof -
  have ok: "store_ok rollover_store"
    by (simp add: store_ok_def rollover_store_def)
  from getOrCreateSession_never_raises [OF ok, of None "env_at 1260000 False"] ok
  show ?thesis by (simp add: env_at_def)
qed

subsection \<open>Message deduplication\<close>

lemma save_frame:
  assumes "saveConversationToMongoDB cd e w = (ok, w')"
  shows "processedMessages w' = processedMessages w \<and> analytics_posts w' = analytics_posts w \<and>
         analyticsSentMessages w' = analyticsSentMessages w \<and> session_state w' = session_state w \<and>
         message_id_mappings w' = message_id_mappings w"
  using assms
  by (auto simp: saveConversationToMongoDB_def split: if_splits option.splits)

lemma send_frame:
  assumes "sendConversationToAnalytics cd e w = (r, w')"
  shows "processedMessages w' = processedMessages w \<and> conversations w' = conversations w \<and>
         session_state w' = session_state w"
  using assms
  by (auto simp: sendConversationToAnalytics_def Let_def
      split: if_splits option.splits fetch_outcome.splits prod.splits)


lemma or_else_content [simp]: "or_else (Some x) [] = x"
  by (simp add: or_else_def)




lemma normalizeMessage_Some:
  "\<exists>m. normalizeMessage ne k (Some raw) = Inr m \<and> m_content m = or_else (rm_content raw) [] \<and>
       m_timestamp m = (case rm_timestamp raw of Some t \<Rightarrow> t | None \<Rightarrow> n_now ne) \<and>
       (rm_role raw = Some ''user'' \<longrightarrow> m_role m = ''user'' \<and> m_type m = ''user'') \<and>
       (rm_role raw = Some ''assistant'' \<and> rm_sender raw \<noteq> Some ''user'' \<and> rm_type raw \<noteq> Some ''user''
          \<longrightarrow> m_role m = ''assistant'' \<and> m_type m = ''bot'')"
  by (simp add: normalizeMessage_def Let_def)

lemma pair_conversation:
  assumes u: "normalizeMessage ne 0
                (Some \<lparr>rm_id = Some uid, rm_content = Some userMessage, rm_role = Some ''user'',
                       rm_sender = Some ''user'', rm_type = None, rm_defaultRole = None,
                       rm_timestamp = Some t, rm_language = Some lang, rm_postgresqlId = None\<rparr>) = Inr um"
    and b: "normalizeMessage ne 0
                (Some \<lparr>rm_id = Some bid, rm_content = Some botResponse, rm_role = Some ''assistant'',
                       rm_sender = Some ''bot'', rm_type = None, rm_defaultRole = None,
                       rm_timestamp = Some (t + 1), rm_language = Some lang, rm_postgresqlId = None\<rparr>) = Inr bm"
    and c: "normalizeConversation ne
              (Some \<lparr>rc_id = i1, rc_sessionId = i2, rc_chatId = i3, rc_clientId = i4,
                     rc_startedAt = i5, rc_startTime = i6, rc_endedAt = i7, rc_language = i8,
                     rc_topic = i9, rc_status = i10,
                     rc_messages = Some [Some (as_raw um), Some (as_raw bm)],
                     rc_userMessage = None, rc_botResponse = None\<rparr>) = Inr cd"
  shows "map m_content (c_messages cd) = [userMessage, botResponse] \<and>
         map m_role (c_messages cd) = [''user'', ''assistant''] \<and>
         map m_timestamp (c_messages cd) = [t, t + 1]"
proof -
  from u have um: "m_content um = userMessage" "m_role um = ''user''" "m_type um = ''user''"
    "m_timestamp um = t"
    by (auto simp: normalizeMessage_def Let_def)
  from b have bm: "m_content bm = botResponse" "m_role bm = ''assistant''" "m_type bm = ''bot''"
    "m_timestamp bm = t + 1"
    by (auto simp: normalizeMessage_def Let_def)
  obtain um' where um': "normalizeMessage ne 1 (Some (as_raw um)) = Inr um'"
    "m_content um' = userMessage" "m_role um' = ''user''" "m_timestamp um' = t"
    using normalizeMessage_Some [of ne 1 "as_raw um"] um by (auto simp: as_raw_def)
  obtain bm' where bm': "normalizeMessage ne 2 (Some (as_raw bm)) = Inr bm'"
    "m_content bm' = botResponse" "m_role bm' = ''assistant''" "m_timestamp bm' = t + 1"
    using normalizeMessage_Some [of ne 2 "as_raw bm"] bm by (auto simp: as_raw_def)
  have two: "Suc (Suc 0) = 2" by simp
  from c um' bm' have "c_messages cd = sort_key m_timestamp [um', bm']"
    by (auto simp: normalizeConversation_def Let_def truthy_def two)
  then show ?thesis using um' bm' by simp
qed

lemma getOrCreateSession_Inr: "\<exists>s st. getOrCreateSession sid e w = Inr (s, st)"
  by (cases "getOrCreateSession_try sid e w") (auto simp: getOrCreateSession_def)

lemma normalizeConversation_pair_Inr:
  assumes "normalizeMessage ne 1 x = Inr a" "normalizeMessage ne 2 y = Inr b"
  shows "\<exists>cd. normalizeConversation ne
              (Some \<lparr>rc_id = i1, rc_sessionId = i2, rc_chatId = i3, rc_clientId = i4,
                     rc_startedAt = i5, rc_startTime = i6, rc_endedAt = i7, rc_language = i8,
                     rc_topic = i9, rc_status = i10, rc_messages = Some [x, y],
                     rc_userMessage = None, rc_botResponse = None\<rparr>) = Inr cd"
proof -
  have two: "Suc (Suc 0) = 2" by simp
  show ?thesis using assms by (simp add: normalizeConversation_def Let_def truthy_def two)
qed

lemma processMessagePair_duplicate:
  assumes "u \<noteq> []" "b \<noteq> []"
    and "getOrCreateSession (md_sessionId md) (p_session e) (session_state w) = Inr (s, st)"
    and "messageSignature (conversationId s) u b \<in> set (processedMessages w)"
  shows "processMessagePair u b md e w = (Failed ''duplicate_message'', w\<lparr>session_state := st\<rparr>)"
  using assms by (simp add: processMessagePair_def Let_def)

lemma processMessagePair_fresh:
  assumes ne: "u \<noteq> []" "b \<noteq> []"
    and g: "getOrCreateSession (md_sessionId md) (p_session e) (session_state w) = Inr (s, st)"
    and fresh: "messageSignature (conversationId s) u b \<notin> set (processedMessages w)"
  shows "\<exists>cd ok w3 r w4.
           processMessagePair u b md e w =
             (Processed (conversationId s)
                (''user-msg-'' @ show_int (p_now e) @ ''-'' @ p_uuid_user e)
                (''bot-msg-'' @ show_int (p_now e + 1) @ ''-'' @ p_uuid_bot e)
                (if truthy (a_postgresqlId r) then a_postgresqlId r else None), w4) \<and>
           map m_content (c_messages cd) = [u, b] \<and>
           map m_role (c_messages cd) = [''user'', ''assistant''] \<and>
           map m_timestamp (c_messages cd) = [p_now e, p_now e + 1] \<and>
           saveConversationToMongoDB cd e
             (w\<lparr>session_state := st,
                processedMessages :=
                  remember_signature (messageSignature (conversationId s) u b)
                    (processedMessages w)\<rparr>) = (ok, w3) \<and>
           sendConversationToAnalytics cd e w3 = (r, w4)"
proof -
  let ?sig = "messageSignature (conversationId s) u b"
  let ?ne = "\<lparr>n_now = p_now e, n_random = p_random e\<rparr>"
  let ?lang = "or_else (md_language md) ''en''"
  let ?uid = "''user-msg-'' @ show_int (p_now e) @ ''-'' @ p_uuid_user e"
  let ?bid = "''bot-msg-'' @ show_int (p_now e + 1) @ ''-'' @ p_uuid_bot e"
  let ?ru = "\<lparr>rm_id = Some ?uid, rm_content = Some u, rm_role = Some ''user'',
              rm_sender = Some ''user'', rm_type = None, rm_defaultRole = None,
              rm_timestamp = Some (p_now e), rm_language = Some ?lang, rm_postgresqlId = None\<rparr>"
  let ?rb = "\<lparr>rm_id = Some ?bid, rm_content = Some b, rm_role = Some ''assistant'',
              rm_sender = Some ''bot'', rm_type = None, rm_defaultRole = None,
              rm_timestamp = Some (p_now e + 1), rm_language = Some ?lang, rm_postgresqlId = None\<rparr>"
  obtain um where um: "normalizeMessage ?ne 0 (Some ?ru) = Inr um"
    using normalizeMessage_Some [of ?ne 0 ?ru] by blast
  obtain bm where bm: "normalizeMessage ?ne 0 (Some ?rb) = Inr bm"
    using normalizeMessage_Some [of ?ne 0 ?rb] by blast
  obtain um' where um': "normalizeMessage ?ne 1 (Some (as_raw um)) = Inr um'"
    using normalizeMessage_Some [of ?ne 1 "as_raw um"] by blast
  obtain bm' where bm': "normalizeMessage ?ne 2 (Some (as_raw bm)) = Inr bm'"
    using normalizeMessage_Some [of ?ne 2 "as_raw bm"] by blast
  let ?rc = "\<lparr>rc_id = Some (conversationId s), rc_sessionId = Some (sessionId s),
              rc_chatId = None, rc_clientId = Some (or_else (md_clientId md) ''svorum-strax''),
              rc_startedAt = Some (startedAt s), rc_startTime = None, rc_endedAt = Some (p_now e),
              rc_language = Some ?lang, rc_topic = Some (or_else (md_topic md) ''general''),
              rc_status = Some (or_else (md_status md) ''active''),
              rc_messages = Some [Some (as_raw um), Some (as_raw bm)],
              rc_userMessage = None, rc_botResponse = None\<rparr>"
  obtain cd where cd: "normalizeConversation ?ne (Some ?rc) = Inr cd"
    using normalizeConversation_pair_Inr [OF um' bm'] by blast
  note pc = pair_conversation [OF um bm cd]
  let ?w2 = "w\<lparr>session_state := st,
               processedMessages := remember_signature ?sig (processedMessages w)\<rparr>"
  obtain ok w3 where sv: "saveConversationToMongoDB cd e ?w2 = (ok, w3)" by (meson surj_pair)
  obtain r w4 where sd: "sendConversationToAnalytics cd e w3 = (r, w4)" by (meson surj_pair)
  from ne g fresh um bm cd sv sd
  have "processMessagePair u b md e w =
          (Processed (conversationId s) ?uid ?bid
             (if truthy (a_postgresqlId r) then a_postgresqlId r else None), w4)"
    by (simp add: processMessagePair_def Let_def)
  then show ?thesis
    using pc sv sd
    by (intro exI [of _ cd], intro exI [of _ ok], intro exI [of _ w3], intro exI [of _ r],
        intro exI [of _ w4]) simp
qed


lemma processMessagePair_fresh_state:
  assumes ne: "u \<noteq> []" "b \<noteq> []"
    and g: "getOrCreateSession (md_sessionId md) (p_session e) (session_state w) = Inr (s, st)"
    and fresh: "messageSignature (conversationId s) u b \<notin> set (processedMessages w)"
  shows "processedMessages (snd (processMessagePair u b md e w)) =
           remember_signature (messageSignature (conversationId s) u b) (processedMessages w) \<and>
         session_state (snd (processMessagePair u b md e w)) = st"
proof -
  let ?sig = "messageSignature (conversationId s) u b"
  obtain cd ok w3 r w4 where run:
    "processMessagePair u b md e w =
           (Processed (conversationId s)
              (''user-msg-'' @ show_int (p_now e) @ ''-'' @ p_uuid_user e)
              (''bot-msg-'' @ show_int (p_now e + 1) @ ''-'' @ p_uuid_bot e)
              (if truthy (a_postgresqlId r) then a_postgresqlId r else None), w4) \<and>
         map m_content (c_messages cd) = [u, b] \<and>
         map m_role (c_messages cd) = [''user'', ''assistant''] \<and>
         map m_timestamp (c_messages cd) = [p_now e, p_now e + 1] \<and>
         saveConversationToMongoDB cd e
           (w\<lparr>session_state := st,
              processedMessages := remember_signature ?sig (processedMessages w)\<rparr>) = (ok, w3) \<and>
         sendConversationToAnalytics cd e w3 = (r, w4)"
  proof -
    from processMessagePair_fresh [OF ne g fresh] show thesis by (elim exE) (rule that)
  qed
  then have sv: "saveConversationToMongoDB cd e
           (w\<lparr>session_state := st,
              processedMessages := remember_signature ?sig (processedMessages w)\<rparr>) = (ok, w3)"
    and sd: "sendConversationToAnalytics cd e w3 = (r, w4)"
    and res: "snd (processMessagePair u b md e w) = w4" by simp_all
  from save_frame [OF sv] send_frame [OF sd] res show ?thesis by simp
qed

lemma processMessagePair_session_any:
  assumes ne: "u \<noteq> []" "b \<noteq> []"
    and g: "getOrCreateSession (md_sessionId md) (p_session e) (session_state w) = Inr (s, st)"
  shows "session_state (snd (processMessagePair u b md e w)) = st"
proof (cases "messageSignature (conversationId s) u b \<in> set (processedMessages w)")
  case True
  from processMessagePair_duplicate [OF ne g True] show ?thesis by simp
next
  case False
  from processMessagePair_fresh_state [OF ne g False] show ?thesis by simp
qed

lemma processMessagePair_step:
  "processedMessages (snd (processMessagePair u b md e w)) = processedMessages w \<or>
   (\<exists>s. s \<notin> set (processedMessages w) \<and>
        processedMessages (snd (processMessagePair u b md e w)) =
          remember_signature s (processedMessages w))"
proof (cases "u = [] \<or> b = []")
  case True
  then show ?thesis by (auto simp: processMessagePair_def)
next
  case False
  then have ne: "u \<noteq> []" "b \<noteq> []" by simp_all
  obtain s st where g: "getOrCreateSession (md_sessionId md) (p_session e) (session_state w) = Inr (s, st)"
    using getOrCreateSession_Inr by blast
  let ?sig = "messageSignature (conversationId s) u b"
  show ?thesis
  proof (cases "?sig \<in> set (processedMessages w)")
    case True
    from processMessagePair_duplicate [OF ne g True] show ?thesis by simp
  next
    case F: False
    obtain cd ok w3 r w4 where run:
      "processMessagePair u b md e w =
             (Processed (conversationId s)
                (''user-msg-'' @ show_int (p_now e) @ ''-'' @ p_uuid_user e)
                (''bot-msg-'' @ show_int (p_now e + 1) @ ''-'' @ p_uuid_bot e)
                (if truthy (a_postgresqlId r) then a_postgresqlId r else None), w4) \<and>
           map m_content (c_messages cd) = [u, b] \<and>
           map m_role (c_messages cd) = [''user'', ''assistant''] \<and>
           map m_timestamp (c_messages cd) = [p_now e, p_now e + 1] \<and>
           saveConversationToMongoDB cd e
             (w\<lparr>session_state := st,
                processedMessages := remember_signature ?sig (processedMessages w)\<rparr>) = (ok, w3) \<and>
           sendConversationToAnalytics cd e w3 = (r, w4)"
    proof -
      from processMessagePair_fresh [OF ne g F] show thesis by (elim exE) (rule that)
    qed
    then have sv: "saveConversationToMongoDB cd e
             (w\<lparr>session_state := st,
                processedMessages := remember_signature ?sig (processedMessages w)\<rparr>) = (ok, w3)"
      and sd: "sendConversationToAnalytics cd e w3 = (r, w4)"
      and res: "snd (processMessagePair u b md e w) = w4" by simp_all
    from save_frame [OF sv] send_frame [OF sd] res
    have "processedMessages (snd (processMessagePair u b md e w)) =
            remember_signature ?sig (processedMessages w)" by simp
    with F show ?thesis by blast
  qed
qed










lemma remember_signature_bounded:
  "length processed \<le> 1000 \<Longrightarrow> length (remember_signature sig processed) \<le> 1000"
  by (simp add: remember_signature_def Let_def; arith)

lemma processMessagePair_bounded:
  assumes "length (processedMessages w) \<le> 1000"
  shows "length (processedMessages (snd (processMessagePair u b md e w))) \<le> 1000"
  using processMessagePair_step [of u b md e w] assms remember_signature_bounded
  by (elim disjE exE conjE) simp_all



lemma show_int_1: "show_int 1 = ''1''"
  by (simp add: show_int_def show_nat.simps digit_char_def)























subsection \<open>Conversation assembler\<close>

lemma normalizeMessage_role:
  assumes "normalizeMessage e k (Some msg) = Inr m"
  shows "m_role m = ''user'' \<or> m_role m = ''assistant'' \<or>
         (truthy (rm_defaultRole msg) \<and> Some (m_role m) = rm_defaultRole msg)"
proof -
  let ?u = "rm_role msg = Some ''user'' \<or> rm_sender msg = Some ''user'' \<or> rm_type msg = Some ''user''"
  let ?a = "rm_role msg = Some ''assistant'' \<or> rm_sender msg = Some ''bot'' \<or> rm_type msg = Some ''bot''"
  from assms have r: "m_role m = (if ?u then ''user'' else if ?a then ''assistant''
                       else or_else (rm_defaultRole msg) ''user'')"
    unfolding normalizeMessage_def Let_def by (simp only: option.case) auto
  consider (u) "?u" | (a) "\<not> ?u" "?a" | (d) "\<not> ?u" "\<not> ?a" by blast
  then show ?thesis
  proof cases
    case u
    with r have "m_role m = ''user''" by (simp only: if_True)
    then show ?thesis by (rule disjI1)
  next
    case a
    with r have "m_role m = ''assistant''" by (simp only: if_True if_False)
    then show ?thesis by (intro disjI2 disjI1)
  next
    case d
    with r have m: "m_role m = or_else (rm_defaultRole msg) ''user''" by (simp only: if_False)
    show ?thesis
    proof (cases "truthy (rm_defaultRole msg)")
      case True
      then have "Some (or_else (rm_defaultRole msg) ''user'') = rm_defaultRole msg"
        by (cases "rm_defaultRole msg") (simp_all add: truthy_def or_else_def)
      with m True show ?thesis by (intro disjI2) (simp only: simp_thms)
    next
      case False
      then have "or_else (rm_defaultRole msg) ''user'' = ''user''"
        by (cases "rm_defaultRole msg") (simp_all add: truthy_def or_else_def)
      with m show ?thesis by (intro disjI1) (simp only:)
    qed
  qed
qed

lemma normalizeConversation_sorted:
  "normalizeConversation e conv = Inr c \<Longrightarrow> sorted (map m_timestamp (c_messages c))"
  by (auto simp: normalizeConversation_def Let_def split: option.splits sum.splits)

text \<open>
  Claim C7. Whatever the clock and the random draws, normalizing the raw pair
  \<^verbatim>\<open>{userMessage: "hi", botResponse: "hello"}\<close> succeeds with a non-empty conversation id
  and exactly two messages: \<^verbatim>\<open>hi\<close> with role \<^verbatim>\<open>user\<close> at the current time and
  \<^verbatim>\<open>hello\<close> with role \<^verbatim>\<open>assistant\<close> one millisecond later, so the timestamps increase
  strictly and the list is sorted by timestamp.
\<close>

theorem normalizeConversation_pair:
  "\<exists>c. normalizeConversation e (Some raw_pair) = Inr c \<and>
        c_id c \<noteq> [] \<and>
        map m_role (c_messages c) = [''user'', ''assistant''] \<and>
        map m_content (c_messages c) = [''hi'', ''hello''] \<and>
        map m_timestamp (c_messages c) = [n_now e, n_now e + 1] \<and>
        m_timestamp (c_messages c ! 0) < m_timestamp (c_messages c ! 1) \<and>
        sorted (map m_timestamp (c_messages c))"
proof -
  have id: "or_else None (''conv_'' @ show_int (n_now e) @ ''_'' @ n_random e 0) \<noteq> []"
    by (rule or_else_nonempty) simp
  show ?thesis
    using id
    by (simp add: normalizeConversation_def normalizeMessage_def raw_pair_def legacy_message_def
        Let_def truthy_def or_else_def)
qed

text \<open>
  Claim C8 fails on the code. A message without a recognised \<^verbatim>\<open>role\<close>, \<^verbatim>\<open>sender\<close> or
  \<^verbatim>\<open>type\<close> takes its role from \<^verbatim>\<open>defaultRole\<close> unchecked:
  \<^verbatim>\<open>{content: "x", defaultRole: "system"}\<close> is returned with role \<^verbatim>\<open>system\<close> (and type
  \<^verbatim>\<open>bot\<close>), outside the two values the module's own \<^verbatim>\<open>MessageData\<close> typedef allows.
\<close>

theorem normalizeMessage_defaultRole:
  "normalizeMessage e k (Some raw_system_message) =
     Inr \<lparr>m_id = ''msg_'' @ show_int (n_now e) @ ''_'' @ n_random e k, m_content = ''x'',
          m_role = ''system'', m_type = ''bot'', m_timestamp = n_now e, m_language = ''en'',
          m_postgresqlId = None\<rparr>"
  by (simp add: normalizeMessage_def raw_system_message_def Let_def truthy_def or_else_def)

subsection \<open>Identifier reconciler\<close>

lemma find_update_first_other:
  assumes "\<And>x. x \<in> set xs \<Longrightarrow> \<not> P x \<Longrightarrow> \<not> Q x" "\<And>x. P x \<Longrightarrow> Q (f x)" "find P xs \<noteq> None"
  shows "find Q (update_first P f xs) = map_option f (find P xs)"
  using assms by (induction xs) auto

lemma find_append_other:
  assumes "\<And>x. x \<in> set xs \<Longrightarrow> \<not> Q x" "Q y"
  shows "find Q (xs @ [y]) = Some y"
  using assms by (induction xs) auto

lemma find_None_all: "find P xs = None \<Longrightarrow> x \<in> set xs \<Longrightarrow> \<not> P x"
  by (auto simp: find_None_iff)

text \<open>
  Claim C4, as amended. Let \<open>a\<close> and \<open>b\<close> be non-empty, with \<open>a\<close> stored nowhere as a
  remote id and \<open>b\<close> nowhere as a local id. After \<^verbatim>\<open>createMessageIdMapping(a, b)\<close> has
  succeeded (it updates the first mapping that has \<open>a\<close> or \<open>b\<close> on its own side, or
  inserts one), the lookup of \<^verbatim>\<open>getMessageFeedback\<close> with \<open>a\<close> and with \<open>b\<close> finds the
  same document, whose sides are \<open>a\<close> and \<open>b\<close>, and resolves to the remote id \<open>b\<close>.
\<close>

theorem createMessageIdMapping_lookup:
  assumes ids: "a \<noteq> []" "b \<noteq> []"
    and apart: "ids_apart a b (message_id_mappings w)"
    and rec: "createMessageIdMapping (Some a) (Some b) content e w = (r, w')" "r \<noteq> MappingFailed"
    and up: "mp_connect_ok e'" "mp_findOne_ok e'" "mp_connect_ok e''" "mp_findOne_ok e''"
  shows "\<exists>m. getMessageFeedback_mapping a e' w' = Some (Some m, b) \<and>
             getMessageFeedback_mapping b e'' w' = Some (Some m, b) \<and>
             mongodbId m = a \<and> postgresqlId m = b"
proof -
  let ?P = "\<lambda>d. mongodbId d = a \<or> postgresqlId d = b"
  let ?A = "\<lambda>d. mongodbId d = a \<or> postgresqlId d = a"
  let ?B = "\<lambda>d. mongodbId d = b \<or> postgresqlId d = b"
  let ?docs = "message_id_mappings w"
  from rec ids have ok: "mp_connect_ok e \<and> mp_findOne_ok e \<and> mp_write_ok e"
    by (auto simp: createMessageIdMapping_def Let_def split: if_splits)
  from apart have ap: "\<And>d. d \<in> set ?docs \<Longrightarrow> postgresqlId d \<noteq> a \<and> mongodbId d \<noteq> b"
    by (simp add: ids_apart_def list_all_iff)
  show ?thesis
  proof (cases "find ?P ?docs")
    case None
    let ?n = "\<lparr>mongodbId = a, postgresqlId = b,
               md_content = (if truthy content then content else None),
               md_trackingId = Some (mp_uuid_tracking e),
               md_createdAt = mp_now e, md_updatedAt = None\<rparr>"
    from None rec ids ok have w': "message_id_mappings w' = ?docs @ [?n]"
      by (auto simp: createMessageIdMapping_def Let_def)
    have nA: "\<And>x. x \<in> set ?docs \<Longrightarrow> \<not> ?A x"
      using find_None_all [OF None] ap by blast
    have nB: "\<And>x. x \<in> set ?docs \<Longrightarrow> \<not> ?B x"
      using find_None_all [OF None] ap by blast
    have "find ?A (?docs @ [?n]) = Some ?n" by (rule find_append_other [OF nA]) simp_all
    moreover have "find ?B (?docs @ [?n]) = Some ?n" by (rule find_append_other [OF nB]) simp_all
    ultimately show ?thesis using w' up ids
      by (simp add: getMessageFeedback_mapping_def Let_def)
  next
    case (Some d)
    let ?f = "\<lambda>d. d\<lparr>mongodbId := a, postgresqlId := b,
                    md_content := (if truthy content then content else md_content d),
                    md_updatedAt := Some (mp_now e)\<rparr>"
    from Some rec ids ok have w': "message_id_mappings w' = update_first ?P ?f ?docs"
      by (auto simp: createMessageIdMapping_def Let_def)
    have "find ?A (update_first ?P ?f ?docs) = map_option ?f (find ?P ?docs)"
      by (rule find_update_first_other) (use ap Some in auto)
    moreover have "find ?B (update_first ?P ?f ?docs) = map_option ?f (find ?P ?docs)"
      by (rule find_update_first_other) (use ap Some in auto)
    ultimately show ?thesis using w' up ids Some
      by (simp add: getMessageFeedback_mapping_def Let_def)
  qed
qed


text \<open>The scenario of the specification: local \<^verbatim>\<open>msg-7\<close>, remote \<^verbatim>\<open>pg-42\<close>, empty collection.\<close>

theorem createMessageIdMapping_lookup_witness:
  "ids_apart ''msg-7'' ''pg-42'' (message_id_mappings demo_world) \<and>
   (\<exists>r w' m.
      createMessageIdMapping (Some ''msg-7'') (Some ''pg-42'') None mapping_env_up demo_world = (r, w') \<and>
      r \<noteq> MappingFailed \<and>
      getMessageFeedback_mapping ''msg-7'' mapping_env_up w' = Some (Some m, ''pg-42'') \<and>
      getMessageFeedback_mapping ''pg-42'' mapping_env_up w' = Some (Some m, ''pg-42'') \<and>
      mongodbId m = ''msg-7'' \<and> postgresqlId m = ''pg-42'')"
proof -
  have ap: "ids_apart ''msg-7'' ''pg-42'' (message_id_mappings demo_world)"
    by (simp add: ids_apart_def demo_world_def)
  obtain r w' where c: "createMessageIdMapping (Some ''msg-7'') (Some ''pg-42'') None
                          mapping_env_up demo_world = (r, w')"
    by (meson surj_pair)
  then have ok: "r \<noteq> MappingFailed"
    by (auto simp: createMessageIdMapping_def mapping_env_up_def demo_world_def Let_def)
  have up: "mp_connect_ok mapping_env_up" "mp_findOne_ok mapping_env_up"
    by (simp_all add: mapping_env_up_def)
  from createMessageIdMapping_lookup [OF _ _ ap c ok up up]
  obtain m where "getMessageFeedback_mapping ''msg-7'' mapping_env_up w' = Some (Some m, ''pg-42'') \<and>
      getMessageFeedback_mapping ''pg-42'' mapping_env_up w' = Some (Some m, ''pg-42'') \<and>
      mongodbId m = ''msg-7'' \<and> postgresqlId m = ''pg-42''"
    by auto
  with ap c ok show ?thesis by blast
qed

text \<open>
  Claim C4 as stated fails when the identifier spaces cross: with \<^verbatim>\<open>msg-7\<close> already the
  remote side of the mapping of \<^verbatim>\<open>msg-1\<close>, recording \<^verbatim>\<open>(msg-7, pg-42)\<close> inserts a second
  document, and the lookup of \<^verbatim>\<open>msg-7\<close> still returns the first.
\<close>

theorem createMessageIdMapping_lookup_counterexample:
  "fst (createMessageIdMapping (Some ''msg-7'') (Some ''pg-42'') None mapping_env_up crossed_world) =
     MappingCreated ''msg-7'' ''pg-42'' \<and>
   getMessageFeedback_mapping ''msg-7'' mapping_env_up
     (snd (createMessageIdMapping (Some ''msg-7'') (Some ''pg-42'') None mapping_env_up crossed_world)) =
     Some (Some \<lparr>mongodbId = ''msg-1'', postgresqlId = ''msg-7'', md_content = None,
                  md_trackingId = None, md_createdAt = 0, md_updatedAt = None\<rparr>,
           ''msg-7'')"
  by (simp add: createMessageIdMapping_def getMessageFeedback_mapping_def mapping_env_up_def
      crossed_world_def demo_world_def Let_def truthy_def or_else_def)

subsection \<open>Response cache and chat handler\<close>

lemma cache_get_put:
  "cache_get k t' (cache_put k p t sv) = (if t' - t < CACHE_TTL then Some p else None)"
  by (simp add: cache_get_def cache_put_def cache_ref_def)

text \<open>
  Claim C5. Reading a key at the time it was written returns the payload written; reading
  it more than \<open>CACHE_TTL\<close> (one hour) later is a miss, on the state the write left (no
  sweep in between): the read itself tests the entry's age.
\<close>

theorem cache_roundtrip:
  "cache_get k t (cache_put k p t sv) = Some p \<and>
   (t' - t > CACHE_TTL \<longrightarrow> cache_get k t' (cache_put k p t sv) = None)"
  by (simp add: cache_get_put CACHE_TTL_def)

theorem cache_roundtrip_witness:
  "cache_get ''s1:hi:en:0:0'' 0 (cache_put ''s1:hi:en:0:0'' hi_response 0 empty_server) =
     Some hi_response \<and>
   (3600001::int) - 0 > CACHE_TTL \<and>
   cache_get ''s1:hi:en:0:0'' 3600001 (cache_put ''s1:hi:en:0:0'' hi_response 0 empty_server) = None"
  using cache_roundtrip [of "''s1:hi:en:0:0''" 0 hi_response empty_server 3600001]
  by (simp add: CACHE_TTL_def)

lemma show_nat_0: "show_nat 0 = ''0''"
  by (simp add: show_nat.simps digit_char_def)

lemma hi_cacheKey: "request_cacheKey hi_request (handler_env_at t) = ''s1:hi:en:0:0''"
  by (simp add: request_cacheKey_def request_sessionId_def request_userMessage_def
      request_language_def hi_request_def handler_env_at_def count_of_def show_nat_0 or_else_def)

text \<open>
  Claim C10. On a request whose cache key has an entry younger than the TTL, the handler
  answers with the cached payload, schedules no continuation and leaves the whole server
  state as it was: the session cache (so no \<^verbatim>\<open>lastActivity\<close> is bumped), the stored
  sessions, conversations and mappings, the dedup structures and the bodies POSTed to the
  analytics API. \<^verbatim>\<open>getOrCreateSession\<close> comes after the early return. This holds for
  the main server's handler (on a request that passes its validation) and for the
  speed-optimized variant (on a request that carries a message).
\<close>

theorem chat_handler_cache_hit:
  "(request_valid req \<and> cache_get (request_cacheKey req e) (h_now e) sv = Some payload
      \<longrightarrow> chat_handler req e sv = (Json200 payload, sv, None)) \<and>
   (body_message req = Some message \<and>
    cache_get (optimized_cacheKey (body_sessionId req) message e) (h_now e) sv = Some payload
      \<longrightarrow> chat_handler_optimized req e sv = (Json200 payload, sv, None))"
  by (simp add: chat_handler_def chat_handler_optimized_def Let_def)

text \<open>The reply to \<^verbatim>\<open>hi\<close> cached at time 0, the same request five minutes later.\<close>

theorem chat_handler_cache_hit_witness:
  "request_valid hi_request \<and>
   body_message hi_request = Some ''hi'' \<and>
   cache_get (request_cacheKey hi_request (handler_env_at 300000)) (h_now (handler_env_at 300000))
     (cache_put ''s1:hi:en:0:0'' hi_response 0 empty_server) = Some hi_response \<and>
   chat_handler hi_request (handler_env_at 300000)
     (cache_put ''s1:hi:en:0:0'' hi_response 0 empty_server) =
     (Json200 hi_response, cache_put ''s1:hi:en:0:0'' hi_response 0 empty_server, None) \<and>
   cache_get (optimized_cacheKey (body_sessionId hi_request) ''hi'' (handler_env_at 300000))
     (h_now (handler_env_at 300000))
     (cache_put ''s1:hi:en'' hi_response 0 empty_server) = Some hi_response \<and>
   chat_handler_optimized hi_request (handler_env_at 300000)
     (cache_put ''s1:hi:en'' hi_response 0 empty_server) =
     (Json200 hi_response, cache_put ''s1:hi:en'' hi_response 0 empty_server, None)"
proof -
  have v: "request_valid hi_request"
    by (simp add: request_valid_def request_userMessage_def hi_request_def truthy_def)
  have m: "body_message hi_request = Some ''hi''"
    by (simp add: hi_request_def)
  have h: "cache_get (request_cacheKey hi_request (handler_env_at 300000))
             (h_now (handler_env_at 300000))
             (cache_put ''s1:hi:en:0:0'' hi_response 0 empty_server) = Some hi_response"
    unfolding hi_cacheKey by (simp add: cache_get_put handler_env_at_def CACHE_TTL_def)
  have k: "optimized_cacheKey (body_sessionId hi_request) ''hi'' (handler_env_at 300000) =
             ''s1:hi:en''"
    by (simp add: optimized_cacheKey_def hi_request_def handler_env_at_def)
  have h': "cache_get (optimized_cacheKey (body_sessionId hi_request) ''hi'' (handler_env_at 300000))
             (h_now (handler_env_at 300000))
             (cache_put ''s1:hi:en'' hi_response 0 empty_server) = Some hi_response"
    unfolding k by (simp add: cache_get_put handler_env_at_def CACHE_TTL_def)
  from chat_handler_cache_hit
         [of hi_request "handler_env_at 300000"
             "cache_put ''s1:hi:en:0:0'' hi_response 0 empty_server" hi_response]
       v h
  have a: "chat_handler hi_request (handler_env_at 300000)
     (cache_put ''s1:hi:en:0:0'' hi_response 0 empty_server) =
     (Json200 hi_response, cache_put ''s1:hi:en:0:0'' hi_response 0 empty_server, None)"
    by blast
  from chat_handler_cache_hit
         [of hi_request "handler_env_at 300000"
             "cache_put ''s1:hi:en'' hi_response 0 empty_server" hi_response "''hi''"]
       m h'
  have b: "chat_handler_optimized hi_request (handler_env_at 300000)
     (cache_put ''s1:hi:en'' hi_response 0 empty_server) =
     (Json200 hi_response, cache_put ''s1:hi:en'' hi_response 0 empty_server, None)"
    by blast
  from v m h a h' b show ?thesis by (intro conjI)
qed

lemma hi_handler:
  "chat_handler hi_request (handler_env_at 0) empty_server =
     (Json200 hi_response, hi_server, Some hi_continuation)"
proof -
  have v: "request_valid hi_request"
    by (simp add: request_valid_def request_userMessage_def hi_request_def truthy_def)
  have m: "cache_get ''s1:hi:en:0:0'' t empty_server = None" "cache_ref ''s1:hi:en:0:0'' empty_server = None" for t
    by (simp_all add: cache_get_def cache_ref_def empty_server_def)
  have g: "getOrCreateSession (Some ''s1'') (env_at 0 True) (session_state demo_world) =
      Inr (\<lparr>sessionId = ''s1'', conversationId = ''s1_0'', startedAt = 0, lastActivity = 0,
             isNewSession = True, previousConversationId = None\<rparr>,
           \<lparr>sessionCache = [''s1'' \<mapsto>
            \<lparr>sessionId = ''s1'', conversationId = ''s1_0'', startedAt = 0, lastActivity = 0,
             isNewSession = True, previousConversationId = None\<rparr>],
          globalSessions = [new_doc ''s1'' ''s1_0'' 0]\<rparr>)"
    by (simp add: getOrCreateSession_def getOrCreateSession_try_def demo_world_def env_at_def
        Let_def findOne_session_def show_int_0 new_doc_def)
  have r: "request_userMessage hi_request = Some ''hi''"
    "request_sessionId hi_request t = ''s1''"
    "request_language hi_request (handler_env_at t) = ''en''" for t
    by (simp_all add: request_userMessage_def request_sessionId_def request_language_def
        hi_request_def handler_env_at_def or_else_def)
  have e: "h_now (handler_env_at 0) = 0" "h_session (handler_env_at 0) = env_at 0 True"
    "h_completion (handler_env_at 0) = Some ''hello''"
    "detectTopic (handler_env_at 0) = (\<lambda>s. ''general'')"
    by (simp_all add: handler_env_at_def)
  have c: "core empty_server = demo_world" "sessions empty_server = Map.empty"
    by (simp_all add: empty_server_def)
  have n: "count_of (body_files hi_request) = 0" "count_of (body_images hi_request) = 0"
    by (simp_all add: hi_request_def count_of_def)
  have "chat_handler hi_request (handler_env_at 0) empty_server =
      (Json200 hi_response,
       cache_put ''s1:hi:en:0:0'' hi_response 0
         (empty_server\<lparr>core := demo_world\<lparr>session_state :=
              \<lparr>sessionCache = [''s1'' \<mapsto>
                 \<lparr>sessionId = ''s1'', conversationId = ''s1_0'', startedAt = 0, lastActivity = 0,
                  isNewSession = True, previousConversationId = None\<rparr>],
               globalSessions = [new_doc ''s1'' ''s1_0'' 0]\<rparr>\<rparr>,
            sessions := [Some ''s1'' \<mapsto>
              \<lparr>h_messages = [(''user'', ''hi''), (''assistant'', ''hello'')], h_createdAt = 0\<rparr>]\<rparr>),
       Some hi_continuation)"
    unfolding chat_handler_def Let_def
    by (simp add: v m g r e c n hi_cacheKey hi_response_def hi_continuation_def)
  then show ?thesis
    by (simp add: cache_put_def empty_server_def hi_server_def)
qed


lemma broadcast_frame:
  assumes "broadcastConversation u b l t sid st e sv = (r, sv')"
  shows "responseCache sv' = responseCache sv \<and> objects sv' = objects sv \<and>
         next_object sv' = next_object sv"
  using assms
  by (auto simp: broadcastConversation_def Let_def
      split: if_splits prod.splits process_result.splits sum.splits)

lemma run_continuation_frame:
  assumes "run_continuation k e sv = (r, sv')"
  shows "responseCache sv' = responseCache sv \<and> next_object sv' = next_object sv \<and>
         (\<forall>a. k_cached k \<noteq> Some a \<longrightarrow> objects sv' a = objects sv a)"
proof -
  obtain br sv1 where b: "broadcastConversation (k_userMessage k) (k_response k) (k_language k)
      (k_topic k) (k_sessionId k) ''active'' e sv = (br, sv1)"
    by (meson surj_pair)
  note f = broadcast_frame [OF b]
  from assms b f show ?thesis
    by (auto simp: run_continuation_def split: option.splits if_splits)
qed

lemma chat_handler_fresh:
  assumes "chat_handler req e sv = (Json200 p, sv1, Some k)"
  shows "\<exists>sv0. sv1 = cache_put (request_cacheKey req e) p (h_now e) sv0 \<and>
           responseCache sv0 = responseCache sv \<and> objects sv0 = objects sv \<and>
           next_object sv0 = next_object sv \<and>
           k_cached k = cache_ref (request_cacheKey req e) sv \<and>
           r_postgresqlMessageId p = None"
  using assms
  unfolding chat_handler_def Let_def
  by (auto split: if_splits option.splits sum.splits prod.splits)


text \<open>
  The continuation writes through the variable \<^verbatim>\<open>cached\<close>, read before the new entry was
  made: it is \<^verbatim>\<open>undefined\<close> or the stale entry that \<^verbatim>\<open>responseCache.set\<close> has just
  replaced. So the entry in the cache keeps \<^verbatim>\<open>postgresqlMessageId: null\<close>, whatever the
  broadcast returns.
\<close>

lemma continuation_never_backfills:
  assumes alloc: "refs_allocated sv"
    and h: "chat_handler req e sv = (Json200 p, sv1, Some k)"
    and c: "run_continuation k e' sv1 = (r, sv2)"
  shows "cache_get (request_cacheKey req e) t sv2 =
           (if t - h_now e < CACHE_TTL then Some p else None) \<and>
         r_postgresqlMessageId p = None"
proof -
  let ?key = "request_cacheKey req e"
  from chat_handler_fresh [OF h] obtain sv0 where
    sv1: "sv1 = cache_put ?key p (h_now e) sv0"
    and same: "responseCache sv0 = responseCache sv" "next_object sv0 = next_object sv"
    and cap: "k_cached k = cache_ref ?key sv"
    and none: "r_postgresqlMessageId p = None"
    by blast
  let ?n = "next_object sv"
  have "k_cached k \<noteq> Some ?n"
    using alloc cap by (auto simp: refs_allocated_def cache_ref_def)
  with run_continuation_frame [OF c]
  have "responseCache sv2 = responseCache sv1" "objects sv2 ?n = objects sv1 ?n"
    by simp_all
  moreover have "responseCache sv1 ?key = Some ?n"
    "objects sv1 ?n = Some \<lparr>ce_response = p, ce_timestamp = h_now e\<rparr>"
    using sv1 same by (simp_all add: cache_put_def)
  ultimately have "cache_get ?key t sv2 = (if t - h_now e < CACHE_TTL then Some p else None)"
    by (simp add: cache_get_def cache_ref_def)
  with none show ?thesis by simp
qed

text \<open>The same holds in the speed-optimized variant, whose continuation is the same code.\<close>

lemma chat_handler_optimized_fresh:
  assumes "chat_handler_optimized req e sv = (Json200 p, sv1, Some k)"
    and "body_message req = Some message"
  shows "\<exists>sv0. sv1 = cache_put (optimized_cacheKey (body_sessionId req) message e) p (h_now e) sv0 \<and>
           responseCache sv0 = responseCache sv \<and> objects sv0 = objects sv \<and>
           next_object sv0 = next_object sv \<and>
           k_cached k = cache_ref (optimized_cacheKey (body_sessionId req) message e) sv \<and>
           r_postgresqlMessageId p = None"
  using assms
  unfolding chat_handler_optimized_def Let_def
  by (auto split: if_splits option.splits sum.splits prod.splits)

lemma continuation_never_backfills_optimized:
  assumes alloc: "refs_allocated sv"
    and h: "chat_handler_optimized req e sv = (Json200 p, sv1, Some k)"
    and m: "body_message req = Some message"
    and c: "run_continuation k e' sv1 = (r, sv2)"
  shows "cache_get (optimized_cacheKey (body_sessionId req) message e) t sv2 =
           (if t - h_now e < CACHE_TTL then Some p else None) \<and>
         r_postgresqlMessageId p = None"
proof -
  let ?key = "optimized_cacheKey (body_sessionId req) message e"
  from chat_handler_optimized_fresh [OF h m] obtain sv0 where
    sv1: "sv1 = cache_put ?key p (h_now e) sv0"
    and same: "responseCache sv0 = responseCache sv" "next_object sv0 = next_object sv"
    and cap: "k_cached k = cache_ref ?key sv"
    and none: "r_postgresqlMessageId p = None"
    by blast
  let ?n = "next_object sv"
  have "k_cached k \<noteq> Some ?n"
    using alloc cap by (auto simp: refs_allocated_def cache_ref_def)
  with run_continuation_frame [OF c]
  have "responseCache sv2 = responseCache sv1" "objects sv2 ?n = objects sv1 ?n"
    by simp_all
  moreover have "responseCache sv1 ?key = Some ?n"
    "objects sv1 ?n = Some \<lparr>ce_response = p, ce_timestamp = h_now e\<rparr>"
    using sv1 same by (simp_all add: cache_put_def)
  ultimately have "cache_get ?key t sv2 = (if t - h_now e < CACHE_TTL then Some p else None)"
    by (simp add: cache_get_def cache_ref_def)
  with none show ?thesis by simp
qed

lemma broadcast_processed:
  assumes "u \<noteq> []" "b \<noteq> []" "k_pusher_ok e"
    and "processMessagePair u b
           \<lparr>md_sessionId = sid, md_language = Some l, md_clientId = Some ''svorum-strax'',
            md_topic = Some t, md_status = Some st\<rparr> (k_process e) (core sv) =
         (Processed cid uid bid pg, w1)"
  shows "fst (broadcastConversation u b l t sid st e sv) = \<lparr>b_success = True, b_postgresqlId = pg\<rparr>"
proof -
  obtain s store' where "getOrCreateSession sid (k_session e) (session_state w1) = Inr (s, store')"
    using getOrCreateSession_Inr by blast
  with assms show ?thesis by (simp add: broadcastConversation_def Let_def)
qed

lemma hi_processed:
  "fst (processMessagePair ''hi'' ''hello''
         \<lparr>md_sessionId = Some ''s1'', md_language = Some ''en'',
          md_clientId = Some ''svorum-strax'', md_topic = Some ''general'',
          md_status = Some ''active''\<rparr> (demo_env 1) (core hi_server)) =
     Processed ''s1_0'' ''user-msg-1-1b9d6bcd'' ''bot-msg-2-9c4f1a07'' (Some ''pg-42'')"
proof -
  have two: "show_int 2 = ''2''"
    by (simp add: show_int_def show_nat.simps digit_char_def)
  show ?thesis
  by (simp add: processMessagePair_def demo_env_def demo_world_def hi_server_def env_at_def
      getOrCreateSession_def getOrCreateSession_try_def Let_def show_int_0 show_int_1 two
      new_doc_def findOne_session_def messageSignature_def remember_signature_def
      normalizeMessage_def normalizeConversation_def as_raw_def truthy_def or_else_def
      saveConversationToMongoDB_def sendConversationToAnalytics_def botMessages_def
      analytics_signature_def split_beta SESSION_TIMEOUT_def)
qed

text \<open>
  Claim C6 fails on the code. A first request \<^verbatim>\<open>{message: "hi", sessionId: "s1"}\<close> is
  answered and cached; its continuation forwards the pair and obtains the remote id
  \<^verbatim>\<open>pg-42\<close>; the cached reply read afterwards still has no remote id.
\<close>

theorem chat_backfill_lost:
  "chat_handler hi_request (handler_env_at 0) empty_server =
     (Json200 hi_response, hi_server, Some hi_continuation) \<and>
   fst (run_continuation hi_continuation (continuation_env_at 1) hi_server) =
     \<lparr>b_success = True, b_postgresqlId = Some ''pg-42''\<rparr> \<and>
   cache_get ''s1:hi:en:0:0'' 1
     (snd (run_continuation hi_continuation (continuation_env_at 1) hi_server)) =
     Some hi_response \<and>
   r_postgresqlMessageId hi_response = None"
proof -
  let ?md = "\<lparr>md_sessionId = Some ''s1'', md_language = Some ''en'',
          md_clientId = Some ''svorum-strax'', md_topic = Some ''general'',
          md_status = Some ''active''\<rparr>"
  have p: "processMessagePair ''hi'' ''hello'' ?md (k_process (continuation_env_at 1)) (core hi_server) =
     (Processed ''s1_0'' ''user-msg-1-1b9d6bcd'' ''bot-msg-2-9c4f1a07'' (Some ''pg-42''),
      snd (processMessagePair ''hi'' ''hello'' ?md (demo_env 1) (core hi_server)))"
    using hi_processed by (simp add: continuation_env_at_def prod_eq_iff)
  have "fst (broadcastConversation ''hi'' ''hello'' ''en'' ''general'' (Some ''s1'') ''active''
          (continuation_env_at 1) hi_server) = \<lparr>b_success = True, b_postgresqlId = Some ''pg-42''\<rparr>"
    by (rule broadcast_processed [OF _ _ _ p]) (simp_all add: continuation_env_at_def)
  then have b: "fst (run_continuation hi_continuation (continuation_env_at 1) hi_server) =
     \<lparr>b_success = True, b_postgresqlId = Some ''pg-42''\<rparr>"
    by (simp add: run_continuation_def hi_continuation_def split_beta)
  have a: "refs_allocated empty_server"
    by (simp add: refs_allocated_def empty_server_def)
  have k: "request_cacheKey hi_request (handler_env_at 0) = ''s1:hi:en:0:0''"
    by (rule hi_cacheKey)
  have rc: "run_continuation hi_continuation (continuation_env_at 1) hi_server =
      (fst (run_continuation hi_continuation (continuation_env_at 1) hi_server),
       snd (run_continuation hi_continuation (continuation_env_at 1) hi_server))"
    by simp
  have "cache_get (request_cacheKey hi_request (handler_env_at 0)) 1
          (snd (run_continuation hi_continuation (continuation_env_at 1) hi_server)) =
        (if 1 - h_now (handler_env_at 0) < CACHE_TTL then Some hi_response else None) \<and>
        r_postgresqlMessageId hi_response = None"
    by (rule continuation_never_backfills [OF a hi_handler rc])
  then have c: "cache_get ''s1:hi:en:0:0'' 1
     (snd (run_continuation hi_continuation (continuation_env_at 1) hi_server)) = Some hi_response"
    and n: "r_postgresqlMessageId hi_response = None"
    unfolding k by (simp_all add: handler_env_at_def CACHE_TTL_def)
  from hi_handler b c n show ?thesis by simp
qed

end
